theory Spec2Isabelle
  imports Complex_Main "HOL-Library.Stream" "HOL-Library.Multiset"
begin

section \<open>Mediation analysis with simulated data\<close>

text \<open>
  The notebook works on numpy arrays of floats. Floats are idealised as reals here; a
  float result that is \<open>nan\<close> is the value \<open>None\<close> of \<open>real option\<close>.

  \<open>np.random.normal(size=n)\<close> reads the next \<open>n\<close> values of the global generator
  and advances it. The generator is the stream of the standard-normal values it is going
  to deliver (one realisation of the noise); drawing takes a prefix and returns the rest.
\<close>

type_synonym rng = "real stream"

definition normal :: "nat \<Rightarrow> rng \<Rightarrow> real list \<times> rng" where
  "normal k g = (stake k g, sdrop k g)"

text \<open>Elementwise array arithmetic of numpy on arrays of one length.\<close>

definition vadd :: "real list \<Rightarrow> real list \<Rightarrow> real list" where
  "vadd a b = map2 (+) a b"

definition vsub :: "real list \<Rightarrow> real list \<Rightarrow> real list" where
  "vsub a b = map2 (-) a b"

definition vscale :: "real \<Rightarrow> real list \<Rightarrow> real list" where
  "vscale c a = map (\<lambda>v. c * v) a"

definition vdiv :: "real list \<Rightarrow> real \<Rightarrow> real list" where
  "vdiv a c = map (\<lambda>v. v / c) a"

text \<open>The data frame with the columns \<open>x\<close>, \<open>m\<close> and \<open>y\<close>.\<close>

record xmy_frame =
  col_x :: "real list"
  col_m :: "real list"
  col_y :: "real list"

text \<open>
  \<open>gendat(mode)\<close>. The sample size \<open>n\<close> is a global of the notebook (\<open>n = 400\<close>) and
  the generator is numpy's global state; both are arguments here, and the advanced
  generator is returned with the frame.
\<close>

definition gendat :: "int \<Rightarrow> nat \<Rightarrow> rng \<Rightarrow> xmy_frame \<times> rng" where
  "gendat mode n g0 =
    (let (x, g1) = normal n g0;
         (e, g2) = normal n g1;
         m = vadd x e;
         m = vdiv m (sqrt 2);
         (y, g3) =
           (if mode = 0 then
              (let (u, g) = normal n g2 in (vadd x u, g))
            else if mode = 1 then
              (let (u, g) = normal n g2 in (vadd m u, g))
            else
              (let (u, g) = normal n g2 in (vadd (vadd m x) u, g)))
     in (\<lparr>col_x = x, col_m = m, col_y = y\<rparr>, g3))"

text \<open>
  The least-squares solver is statsmodels', not the notebook's: the two fits are
  arguments of the model, each delivering the fitted coefficients and the estimated
  residual variance (\<open>scale\<close>) of its formula. \<open>predict\<close> of a fitted formula model is
  the linear predictor on the rows of the frame it is given.
\<close>

record m_fit =
  m_Intercept :: real
  m_coef_x :: real
  m_scale :: real

record o_fit =
  o_Intercept :: real
  o_coef_x :: real
  o_coef_m :: real
  o_scale :: real

definition m_predict :: "m_fit \<Rightarrow> xmy_frame \<Rightarrow> real list" where
  "m_predict f df = map (\<lambda>xv. m_Intercept f + m_coef_x f * xv) (col_x df)"

definition o_predict :: "o_fit \<Rightarrow> xmy_frame \<Rightarrow> real list" where
  "o_predict f df =
     map2 (\<lambda>xv mv. o_Intercept f + o_coef_x f * xv + o_coef_m f * mv) (col_x df) (col_m df)"

text \<open>Assigning a scalar to a column fills the column; the frame keeps its rows.\<close>

definition set_x :: "real \<Rightarrow> xmy_frame \<Rightarrow> xmy_frame" where
  "set_x c df = df\<lparr>col_x := replicate (length (col_x df)) c\<rparr>"

definition set_m :: "real list \<Rightarrow> xmy_frame \<Rightarrow> xmy_frame" where
  "set_m v df = df\<lparr>col_m := v\<rparr>"

text \<open>
  \<open>np.mean\<close> and \<open>np.std\<close>. \<open>np.std\<close> is called with its defaults, so the divisor of
  the variance is the number of values (\<open>ddof = 0\<close>). Both are \<open>nan\<close> on no values.
\<close>

definition np_mean :: "real list \<Rightarrow> real option" where
  "np_mean v = (if v = [] then None else Some (sum_list v / real (length v)))"

definition np_std :: "real list \<Rightarrow> real option" where
  "np_std v =
     (case np_mean v of
        None \<Rightarrow> None
      | Some mu \<Rightarrow> map_option sqrt (np_mean (map (\<lambda>a. (a - mu)\<^sup>2) v)))"

definition fake_mediation ::
  "(xmy_frame \<Rightarrow> m_fit) \<Rightarrow> (xmy_frame \<Rightarrow> o_fit) \<Rightarrow> int \<Rightarrow> nat \<Rightarrow> rng \<Rightarrow>
     (real option \<times> real option \<times> real option \<times> real option) \<times> rng" where
  "fake_mediation ols_m ols_o mode n g0 =
    (let (df, g1) = gendat mode n g0;
         m_model = ols_m df;
         o_model = ols_o df;

         df_xlow = set_x 0 df;
         m_xlow = m_predict m_model df_xlow;
         (u, g2) = normal n g1;
         m_xlow = vadd m_xlow (vscale (sqrt (m_scale m_model)) u);

         df_xhigh = set_x 1 df;
         m_xhigh = m_predict m_model df_xhigh;
         (u, g3) = normal n g2;
         m_xhigh = vadd m_xhigh (vscale (sqrt (m_scale m_model)) u);

         df0 = set_m m_xlow (set_x 0 df);
         y_low = o_predict o_model df0;
         (u, g4) = normal n g3;
         y_low = vadd y_low (vscale (sqrt (o_scale o_model)) u);
         df0 = set_m m_xhigh (set_x 0 df0);
         y_high = o_predict o_model df0;
         (u, g5) = normal n g4;
         y_high = vadd y_high (vscale (sqrt (o_scale o_model)) u);

         aie = np_mean (vsub y_high y_low);
         aie_se = map_option (\<lambda>s. s / sqrt (real n)) (np_std (vsub y_high y_low));

         df0 = set_m m_xlow (set_x 0 df);
         y_low = o_predict o_model df0;
         (u, g6) = normal n g5;
         y_low = vadd y_low (vscale (sqrt (o_scale o_model)) u);
         df0 = set_x 1 df0;
         y_high = o_predict o_model df0;
         (u, g7) = normal n g6;
         y_high = vadd y_high (vscale (sqrt (o_scale o_model)) u);

         ade = np_mean (vsub y_high y_low);
         ade_se = map_option (\<lambda>s. s / sqrt (real n)) (np_std (vsub y_high y_low))
     in ((aie, aie_se, ade, ade_se), g7))"

subsection \<open>The quantities the effects are stated in\<close>

text \<open>
  A counterfactual mediator value is the mediator model's prediction at a fixed exposure
  plus a noise draw times the square root of the model's \<open>scale\<close>; a counterfactual
  outcome is the outcome model's prediction at a fixed exposure and a given mediator
  value, plus noise in the same way. \<open>np.sqrt\<close> of a negative number is \<open>nan\<close>, which
  the real square root is not: the properties below take the fitted scales non-negative,
  as a residual variance is.

  The per-unit contrasts name the draws by their place in the stream: \<open>gendat\<close> reads
  the first \<open>3 * n\<close> values and each of the six later draws the next \<open>n\<close>.
\<close>

definition cf_mediator :: "m_fit \<Rightarrow> real \<Rightarrow> real \<Rightarrow> real" where
  "cf_mediator f xv e = m_Intercept f + m_coef_x f * xv + sqrt (m_scale f) * e"

definition cf_outcome :: "o_fit \<Rightarrow> real \<Rightarrow> real \<Rightarrow> real \<Rightarrow> real" where
  "cf_outcome f xv mv e = o_Intercept f + o_coef_x f * xv + o_coef_m f * mv + sqrt (o_scale f) * e"

definition aie_contrast ::
  "(xmy_frame \<Rightarrow> m_fit) \<Rightarrow> (xmy_frame \<Rightarrow> o_fit) \<Rightarrow> int \<Rightarrow> nat \<Rightarrow> rng \<Rightarrow> nat \<Rightarrow> real" where
  "aie_contrast ols_m ols_o mode n g i =
    (let df = fst (gendat mode n g);
         m_low = cf_mediator (ols_m df) 0 (g !! (3 * n + i));
         m_high = cf_mediator (ols_m df) 1 (g !! (4 * n + i))
     in cf_outcome (ols_o df) 0 m_high (g !! (6 * n + i))
          - cf_outcome (ols_o df) 0 m_low (g !! (5 * n + i)))"

definition ade_contrast ::
  "(xmy_frame \<Rightarrow> m_fit) \<Rightarrow> (xmy_frame \<Rightarrow> o_fit) \<Rightarrow> int \<Rightarrow> nat \<Rightarrow> rng \<Rightarrow> nat \<Rightarrow> real" where
  "ade_contrast ols_m ols_o mode n g i =
    (let df = fst (gendat mode n g);
         m_low = cf_mediator (ols_m df) 0 (g !! (3 * n + i))
     in cf_outcome (ols_o df) 1 m_low (g !! (8 * n + i))
          - cf_outcome (ols_o df) 0 m_low (g !! (7 * n + i)))"

definition mean_upto :: "nat \<Rightarrow> (nat \<Rightarrow> real) \<Rightarrow> real" where
  "mean_upto n f = (\<Sum>i<n. f i) / real n"


text \<open>
  Two standard deviations of \<open>n\<close> values: with the divisor \<open>n\<close>, and the sample standard
  deviation, with the divisor \<open>n - 1\<close>.
\<close>

definition sd_upto :: "nat \<Rightarrow> (nat \<Rightarrow> real) \<Rightarrow> real" where
  "sd_upto n f = sqrt (mean_upto n (\<lambda>i. (f i - mean_upto n f)\<^sup>2))"

definition sample_sd_upto :: "nat \<Rightarrow> (nat \<Rightarrow> real) \<Rightarrow> real" where
  "sample_sd_upto n f = sqrt ((\<Sum>i<n. (f i - mean_upto n f)\<^sup>2) / real (n - 1))"

text \<open>
  What a least-squares fit of \<open>m ~ x\<close> and of \<open>y ~ x + m\<close> satisfies on the frame it was
  fitted to: the residuals are orthogonal to the constant and to each regressor, and
  \<open>scale\<close> is the residual sum of squares over the residual degrees of freedom.
\<close>

definition dot :: "real list \<Rightarrow> real list \<Rightarrow> real" where
  "dot a b = sum_list (map2 (*) a b)"

definition least_squares_m :: "m_fit \<Rightarrow> xmy_frame \<Rightarrow> bool" where
  "least_squares_m f df =
    (let r = vsub (col_m df) (m_predict f df)
     in sum_list r = 0 \<and> dot r (col_x df) = 0
        \<and> m_scale f * (real (length r) - 2) = dot r r)"

definition least_squares_o :: "o_fit \<Rightarrow> xmy_frame \<Rightarrow> bool" where
  "least_squares_o f df =
    (let r = vsub (col_y df) (o_predict f df)
     in sum_list r = 0 \<and> dot r (col_x df) = 0 \<and> dot r (col_m df) = 0
        \<and> o_scale f * (real (length r) - 3) = dot r r)"

text \<open>
  A run with four subjects: the noise, and the least-squares fits of the frame that
  \<open>gendat 0 4\<close> makes of it.
\<close>

definition noise_ex :: rng where
  "noise_ex =
     [1, -1, 1, -1,   1, 1, -1, -1,   1, -1, -1, 1,
      0, 0, 0, 0,   0, 0, 0, 0,
      0, 0, 0, 0,   1, -1, 1, -1,
      0, 0, 0, 0,   1, -1, 1, -1] @- sconst 0"

definition ols_m_ex :: "xmy_frame \<Rightarrow> m_fit" where
  "ols_m_ex df = \<lparr>m_Intercept = 0, m_coef_x = sqrt 2 / 2, m_scale = 1\<rparr>"

definition ols_o_ex :: "xmy_frame \<Rightarrow> o_fit" where
  "ols_o_ex df = \<lparr>o_Intercept = 0, o_coef_x = 1, o_coef_m = 0, o_scale = 4\<rparr>"

section \<open>Multilevel analysis of the blood pressure data\<close>

text \<open>
  A pandas frame is the list of its rows, in their order, and a row is a record of the
  columns the notebook reads. A missing value (\<open>NaN\<close>) is \<open>None\<close>. Row labels are left
  out: every step below is by position, by a column value, or between frames that carry
  the same labels. What pandas raises is a value of \<open>error\<close>.
\<close>

datatype error = KeyError | ValueError

definition then_do :: "error + 'a \<Rightarrow> ('a \<Rightarrow> error + 'b) \<Rightarrow> error + 'b" where
  "then_do r f = (case r of Inl e \<Rightarrow> Inl e | Inr a \<Rightarrow> f a)"

subsection \<open>The wide table\<close>

text \<open>
  \<open>idvars\<close> are the identifier columns. \<open>SEQN\<close> is the key on which the three survey
  files were merged, a float that is taken to be present in every row; age, sex, body mass
  index and the eight readings may be missing. The merged frame has more columns; the
  eight readings are the ones that can be looked up by name here.
\<close>

record idvars =
  SEQN :: real
  RIDAGEYR :: "real option"
  RIAGENDR :: "real option"
  BMXBMI :: "real option"

record wide_row = idvars +
  BPXSY1 :: "real option"
  BPXSY2 :: "real option"
  BPXSY3 :: "real option"
  BPXSY4 :: "real option"
  BPXDI1 :: "real option"
  BPXDI2 :: "real option"
  BPXDI3 :: "real option"
  BPXDI4 :: "real option"

text \<open>\<open>"%d" % j\<close> for a natural number.\<close>

fun percent_d :: "nat \<Rightarrow> string" where
  "percent_d j =
     (if j < 10 then [char_of (48 + j)]
      else percent_d (j div 10) @ [char_of (48 + j mod 10)])"

declare percent_d.simps [simp del]

definition syvars :: "string list" where
  "syvars = map (\<lambda>j. ''BPXSY'' @ percent_d j) [1, 2, 3, 4]"

definition divars :: "string list" where
  "divars = map (\<lambda>j. ''BPXDI'' @ percent_d j) [1, 2, 3, 4]"

definition vvars :: "string list" where
  "vvars = syvars @ divars"

definition column :: "string \<Rightarrow> (wide_row \<Rightarrow> real option) option" where
  "column = map_of
     [(''BPXSY1'', BPXSY1), (''BPXSY2'', BPXSY2), (''BPXSY3'', BPXSY3), (''BPXSY4'', BPXSY4),
      (''BPXDI1'', BPXDI1), (''BPXDI2'', BPXDI2), (''BPXDI3'', BPXDI3), (''BPXDI4'', BPXDI4)]"

subsection \<open>From wide to long\<close>

text \<open>
  \<open>pd.melt(df, id_vars=idvars, value_vars=vvars, var_name='bpvar', value_name='bp')\<close>:
  for each value column in turn, one row per row of the frame, holding the identifier
  columns, the name of the value column and its value. A name that is no column raises
  \<open>KeyError\<close>.
\<close>

record long_row = idvars +
  bpvar :: string
  bp :: "real option"

definition melt_row :: "string \<Rightarrow> (wide_row \<Rightarrow> real option) \<Rightarrow> wide_row \<Rightarrow> long_row" where
  "melt_row v f r = idvars.extend (idvars.truncate r) (long_row.fields v (f r))"

fun melt :: "string list \<Rightarrow> wide_row list \<Rightarrow> error + long_row list" where
  "melt [] df = Inr []"
| "melt (v # vs) df =
     (case column v of
        None \<Rightarrow> Inl KeyError
      | Some f \<Rightarrow> then_do (melt vs df) (\<lambda>rest. Inr (map (melt_row v f) df @ rest)))"

text \<open>The blocks of the melt, one per value column that exists.\<close>

definition melt_rows :: "string list \<Rightarrow> wide_row list \<Rightarrow> long_row list list" where
  "melt_rows vs df =
     map (\<lambda>v. case column v of Some f \<Rightarrow> map (melt_row v f) df | None \<Rightarrow> []) vs"

text \<open>
  \<open>dx.sort_values(by='SEQN')\<close> sorts with numpy's quicksort, which is not stable: the
  rows come out ordered by \<open>SEQN\<close>, and the order among the rows of one \<open>SEQN\<close> is the
  library's. The sort is an argument of the model, and \<open>sorts_by_SEQN\<close> is what is known
  of it: it permutes the rows and leaves them ordered by \<open>SEQN\<close>.
  \<open>reset_index(drop=True)\<close> renumbers the row labels and changes no row.
\<close>

definition sorts_by_SEQN :: "(long_row list \<Rightarrow> long_row list) \<Rightarrow> bool" where
  "sorts_by_SEQN srt = (\<forall>t. mset (srt t) = mset t \<and> sorted (map SEQN (srt t)))"

text \<open>
  \<open>astype(np.int)\<close> of a float column is the cast to a 64-bit integer: it drops the
  fraction, and a value whose integer part is no 64-bit integer (\<open>2 ^ 63\<close> or more, or
  below \<open>- (2 ^ 63)\<close>) comes out as \<open>- (2 ^ 63)\<close>.
\<close>

definition astype_int :: "real \<Rightarrow> real" where
  "astype_int v =
     (let t = (if 0 \<le> v then \<lfloor>v\<rfloor> else \<lceil>v\<rceil>)
      in of_int (if - (2 ^ 63) \<le> t \<and> t < 2 ^ 63 then t else - (2 ^ 63)))"

definition SEQN_astype_int :: "long_row list \<Rightarrow> long_row list" where
  "SEQN_astype_int t = map (\<lambda>r. r\<lparr>SEQN := astype_int (SEQN r)\<rparr>) t"

text \<open>\<open>dropna()\<close> keeps the rows with no missing value in any column.\<close>

definition complete_case :: "long_row \<Rightarrow> bool" where
  "complete_case r \<longleftrightarrow>
     RIDAGEYR r \<noteq> None \<and> RIAGENDR r \<noteq> None \<and> BMXBMI r \<noteq> None \<and> bp r \<noteq> None"

definition dropna :: "long_row list \<Rightarrow> long_row list" where
  "dropna t = filter complete_case t"

definition reshape ::
  "(long_row list \<Rightarrow> long_row list) \<Rightarrow> wide_row list \<Rightarrow> error + long_row list" where
  "reshape srt df =
     then_do (melt vvars df) (\<lambda>dx.
       let dx = srt dx;
           dx = SEQN_astype_int dx;
           dx = dropna dx
       in Inr dx)"

subsection \<open>Derived columns\<close>

text \<open>
  \<open>bpt = bpvar.str[3:5]\<close>, \<open>bpi = bpvar.str[5].astype(np.int)\<close> and
  \<open>female = (RIAGENDR == 2).astype(np.int)\<close>. A name with no character at position 5, or
  with one that is no digit, makes \<open>astype\<close> raise \<open>ValueError\<close>.
\<close>

record derived_row = long_row +
  bpt :: string
  bpi :: int
  female :: int

definition str_3_5 :: "string \<Rightarrow> string" where
  "str_3_5 s = take 2 (drop 3 s)"

definition str_5_astype_int :: "string \<Rightarrow> error + int" where
  "str_5_astype_int s =
     (case drop 5 s of
        [] \<Rightarrow> Inl ValueError
      | c # _ \<Rightarrow>
          if (48::nat) \<le> of_char c \<and> of_char c \<le> (57::nat) then Inr (of_char c - 48)
          else Inl ValueError)"

definition derive_row :: "long_row \<Rightarrow> int \<Rightarrow> derived_row" where
  "derive_row r i =
     long_row.extend r
       (derived_row.fields (str_3_5 (bpvar r)) i (if RIAGENDR r = Some 2 then 1 else 0))"

fun derive :: "long_row list \<Rightarrow> error + derived_row list" where
  "derive [] = Inr []"
| "derive (r # rs) =
     then_do (str_5_astype_int (bpvar r)) (\<lambda>i.
       then_do (derive rs) (\<lambda>rest. Inr (derive_row r i # rest)))"

text \<open>
  \<open>dx.loc[dx.bpt=="DI", :].groupby("SEQN")["bp"].aggregate(np.mean)\<close>: a series with one
  entry per \<open>SEQN\<close> among the diastolic rows, in the order of the keys, holding the mean
  of the group's readings; a group mean skips missing readings and is missing when the
  group has none.
\<close>

definition nanmean :: "real option list \<Rightarrow> real option" where
  "nanmean v = np_mean (List.map_filter (\<lambda>a. a) v)"

definition di_mean_series :: "derived_row list \<Rightarrow> (real \<times> real option) list" where
  "di_mean_series dx =
     (let di = filter (\<lambda>r. bpt r = ''DI'') dx
      in map (\<lambda>s. (s, nanmean (map bp (filter (\<lambda>r. SEQN r = s) di))))
           (sort (remdups (map SEQN di))))"

text \<open>
  The readings a subject's derived mean is stated in: the non-missing values of the
  diastolic rows of the subject in a table.
\<close>

definition di_readings :: "derived_row list \<Rightarrow> real \<Rightarrow> real list" where
  "di_readings dx s =
     List.map_filter (\<lambda>a. a) (map bp (filter (\<lambda>r. bpt r = ''DI'' \<and> SEQN r = s) dx))"

text \<open>
  \<open>pd.merge(dx, di_mean, left_on="SEQN", right_index=True)\<close> is an inner join (the
  default \<open>how\<close>): a row of \<open>dx\<close> whose \<open>SEQN\<close> is a key of the series comes out with
  the series' value as the new column, in the order of \<open>dx\<close>; a row with no match does
  not come out.
\<close>

record merged_row = derived_row +
  di_mean :: "real option"

definition merge_di_mean ::
  "derived_row list \<Rightarrow> (real \<times> real option) list \<Rightarrow> merged_row list" where
  "merge_di_mean dx ser =
     List.map_filter
       (\<lambda>r. map_option (\<lambda>d. derived_row.extend r (merged_row.fields d)) (map_of ser (SEQN r)))
       dx"

definition prepare ::
  "(long_row list \<Rightarrow> long_row list) \<Rightarrow> wide_row list \<Rightarrow> error + merged_row list" where
  "prepare srt df =
     then_do (reshape srt df) (\<lambda>dx.
       then_do (derive dx) (\<lambda>dx.
         let di_mean = di_mean_series dx;
             dx = merge_di_mean dx di_mean
         in Inr dx))"

subsection \<open>The data of the eleven models\<close>

text \<open>
  From \<open>dx = dx.iloc[0:5000, :]\<close> on. The fits are statsmodels'; what the notebook
  decides is the frame each model is given: \<open>dx\<close> for the models 1, 7 and 8; the
  systolic rows \<open>ds2\<close> for 2 and 3; the diastolic rows \<open>ds3\<close> for 4 and 5, and with the
  column \<open>bpi_cen\<close> for 6; \<open>dx\<close> with the indicators \<open>sy\<close> and \<open>di\<close> for 9, and with
  the six indicators of the first three readings of each type for 10 and 11.
\<close>

definition iloc_0_5000 :: "'a list \<Rightarrow> 'a list" where
  "iloc_0_5000 t = take 5000 t"

record centered_row = merged_row +
  bpi_cen :: int

record sy_di_row = merged_row +
  sy :: int
  di :: int

record rep_row = sy_di_row +
  sy1 :: int
  sy2 :: int
  sy3 :: int
  di1 :: int
  di2 :: int
  di3 :: int

definition add_bpi_cen :: "merged_row \<Rightarrow> centered_row" where
  "add_bpi_cen r = merged_row.extend r (centered_row.fields (bpi r - 1))"

definition add_sy_di :: "merged_row \<Rightarrow> sy_di_row" where
  "add_sy_di r =
     merged_row.extend r
       (sy_di_row.fields (if bpt r = ''SY'' then 1 else 0) (if bpt r = ''DI'' then 1 else 0))"

definition add_rep :: "sy_di_row \<Rightarrow> rep_row" where
  "add_rep r =
     sy_di_row.extend r
       (rep_row.fields
          (if bpvar r = ''BPXSY1'' then 1 else 0)
          (if bpvar r = ''BPXSY2'' then 1 else 0)
          (if bpvar r = ''BPXSY3'' then 1 else 0)
          (if bpvar r = ''BPXDI1'' then 1 else 0)
          (if bpvar r = ''BPXDI2'' then 1 else 0)
          (if bpvar r = ''BPXDI3'' then 1 else 0))"

record model_data =
  model1_data :: "merged_row list"
  model2_data :: "merged_row list"
  model3_data :: "merged_row list"
  model4_data :: "merged_row list"
  model5_data :: "merged_row list"
  model6_data :: "centered_row list"
  model7_data :: "merged_row list"
  model8_data :: "merged_row list"
  model9_data :: "sy_di_row list"
  model10_data :: "rep_row list"
  model11_data :: "rep_row list"

definition fit_data :: "merged_row list \<Rightarrow> model_data" where
  "fit_data dx =
     (let dx = iloc_0_5000 dx;
          ds2 = filter (\<lambda>r. bpt r = ''SY'') dx;
          ds3 = filter (\<lambda>r. bpt r = ''DI'') dx;
          ds3_cen = map add_bpi_cen ds3;
          dx_sy_di = map add_sy_di dx;
          dx_rep = map add_rep dx_sy_di
      in \<lparr>model1_data = dx, model2_data = ds2, model3_data = ds2, model4_data = ds3,
          model5_data = ds3, model6_data = ds3_cen, model7_data = dx, model8_data = dx,
          model9_data = dx_sy_di, model10_data = dx_rep, model11_data = dx_rep\<rparr>)"

definition nhanes_bp ::
  "(long_row list \<Rightarrow> long_row list) \<Rightarrow> wide_row list \<Rightarrow> error + model_data" where
  "nhanes_bp srt df = then_do (prepare srt df) (\<lambda>dx. Inr (fit_data dx))"

text \<open>
  The intraclass correlation of a fitted random-intercept model,
  \<open>cov_re / (cov_re + scale)\<close>. The division is a float's: with a zero denominator the
  result is \<open>nan\<close> or infinite, which is \<open>None\<close> here.
\<close>

record mixedlm_result =
  cov_re :: real
  scale :: real

definition icc :: "mixedlm_result \<Rightarrow> real option" where
  "icc result =
     (if cov_re result + scale result = 0 then None
      else Some (cov_re result / (cov_re result + scale result)))"

subsection \<open>A small survey\<close>

text \<open>
  Two subjects: subject 2 has one systolic and two diastolic readings, subject 1 has two
  systolic readings and no diastolic one.
\<close>

definition df_ex :: "wide_row list" where
  "df_ex =
    [\<lparr>SEQN = 2, RIDAGEYR = Some 40, RIAGENDR = Some 1, BMXBMI = Some 25,
      BPXSY1 = Some 120, BPXSY2 = None, BPXSY3 = None, BPXSY4 = None,
      BPXDI1 = Some 80, BPXDI2 = Some 70, BPXDI3 = None, BPXDI4 = None\<rparr>,
     \<lparr>SEQN = 1, RIDAGEYR = Some 30, RIAGENDR = Some 2, BMXBMI = Some 22,
      BPXSY1 = Some 110, BPXSY2 = Some 112, BPXSY3 = None, BPXSY4 = None,
      BPXDI1 = None, BPXDI2 = None, BPXDI3 = None, BPXDI4 = None\<rparr>]"

text \<open>
  The filtered long table of the small survey when ties keep their order, and the table
  with the derived columns.
\<close>

definition lx_ex :: "long_row list" where
  "lx_ex =
    [\<lparr>SEQN = 1, RIDAGEYR = Some 30, RIAGENDR = Some 2, BMXBMI = Some 22,
      bpvar = ''BPXSY1'', bp = Some 110\<rparr>,
     \<lparr>SEQN = 1, RIDAGEYR = Some 30, RIAGENDR = Some 2, BMXBMI = Some 22,
      bpvar = ''BPXSY2'', bp = Some 112\<rparr>,
     \<lparr>SEQN = 2, RIDAGEYR = Some 40, RIAGENDR = Some 1, BMXBMI = Some 25,
      bpvar = ''BPXSY1'', bp = Some 120\<rparr>,
     \<lparr>SEQN = 2, RIDAGEYR = Some 40, RIAGENDR = Some 1, BMXBMI = Some 25,
      bpvar = ''BPXDI1'', bp = Some 80\<rparr>,
     \<lparr>SEQN = 2, RIDAGEYR = Some 40, RIAGENDR = Some 1, BMXBMI = Some 25,
      bpvar = ''BPXDI2'', bp = Some 70\<rparr>]"

definition dx_ex :: "derived_row list" where
  "dx_ex =
    [\<lparr>SEQN = 1, RIDAGEYR = Some 30, RIAGENDR = Some 2, BMXBMI = Some 22,
      bpvar = ''BPXSY1'', bp = Some 110, bpt = ''SY'', bpi = 1, female = 1\<rparr>,
     \<lparr>SEQN = 1, RIDAGEYR = Some 30, RIAGENDR = Some 2, BMXBMI = Some 22,
      bpvar = ''BPXSY2'', bp = Some 112, bpt = ''SY'', bpi = 2, female = 1\<rparr>,
     \<lparr>SEQN = 2, RIDAGEYR = Some 40, RIAGENDR = Some 1, BMXBMI = Some 25,
      bpvar = ''BPXSY1'', bp = Some 120, bpt = ''SY'', bpi = 1, female = 0\<rparr>,
     \<lparr>SEQN = 2, RIDAGEYR = Some 40, RIAGENDR = Some 1, BMXBMI = Some 25,
      bpvar = ''BPXDI1'', bp = Some 80, bpt = ''DI'', bpi = 1, female = 0\<rparr>,
     \<lparr>SEQN = 2, RIDAGEYR = Some 40, RIAGENDR = Some 1, BMXBMI = Some 25,
      bpvar = ''BPXDI2'', bp = Some 70, bpt = ''DI'', bpi = 2, female = 0\<rparr>]"

text \<open>
  A survey of 715 subjects, numbered from 0, each with all readings but the fourth
  diastolic one: seven long rows per subject. Every reading is 120 over 80, but for the
  first diastolic reading of subject 714, which is \<open>b\<close>.
\<close>

definition survey_row :: "real \<Rightarrow> nat \<Rightarrow> wide_row" where
  "survey_row b i =
     \<lparr>SEQN = real i, RIDAGEYR = Some 40, RIAGENDR = Some 1, BMXBMI = Some 25,
      BPXSY1 = Some 120, BPXSY2 = Some 120, BPXSY3 = Some 120, BPXSY4 = Some 120,
      BPXDI1 = Some (if i = 714 then b else 80), BPXDI2 = Some 80, BPXDI3 = Some 80,
      BPXDI4 = None\<rparr>"

definition df_715 :: "real \<Rightarrow> wide_row list" where
  "df_715 b = map (survey_row b) [0..<715]"

text \<open>
  The seven rows of subject 714 of that survey with their derived columns, in the order
  of the melt.
\<close>

definition d_714 :: "real \<Rightarrow> derived_row list" where
  "d_714 b =
    [\<lparr>SEQN = 714, RIDAGEYR = Some 40, RIAGENDR = Some 1, BMXBMI = Some 25,
      bpvar = ''BPXSY1'', bp = Some 120, bpt = ''SY'', bpi = 1, female = 0\<rparr>,
     \<lparr>SEQN = 714, RIDAGEYR = Some 40, RIAGENDR = Some 1, BMXBMI = Some 25,
      bpvar = ''BPXSY2'', bp = Some 120, bpt = ''SY'', bpi = 2, female = 0\<rparr>,
     \<lparr>SEQN = 714, RIDAGEYR = Some 40, RIAGENDR = Some 1, BMXBMI = Some 25,
      bpvar = ''BPXSY3'', bp = Some 120, bpt = ''SY'', bpi = 3, female = 0\<rparr>,
     \<lparr>SEQN = 714, RIDAGEYR = Some 40, RIAGENDR = Some 1, BMXBMI = Some 25,
      bpvar = ''BPXSY4'', bp = Some 120, bpt = ''SY'', bpi = 4, female = 0\<rparr>,
     \<lparr>SEQN = 714, RIDAGEYR = Some 40, RIAGENDR = Some 1, BMXBMI = Some 25,
      bpvar = ''BPXDI1'', bp = Some b, bpt = ''DI'', bpi = 1, female = 0\<rparr>,
     \<lparr>SEQN = 714, RIDAGEYR = Some 40, RIAGENDR = Some 1, BMXBMI = Some 25,
      bpvar = ''BPXDI2'', bp = Some 80, bpt = ''DI'', bpi = 2, female = 0\<rparr>,
     \<lparr>SEQN = 714, RIDAGEYR = Some 40, RIAGENDR = Some 1, BMXBMI = Some 25,
      bpvar = ''BPXDI3'', bp = Some 80, bpt = ''DI'', bpi = 3, female = 0\<rparr>]"

section \<open>Properties of the mediation analysis\<close>

lemma noise_ex_nth:
  "i < 36 \<Longrightarrow> noise_ex !! i = [1, -1, 1, -1,   1, 1, -1, -1,   1, -1, -1, 1,
      0, 0, 0, 0,   0, 0, 0, 0,
      0, 0, 0, 0,   1, -1, 1, -1,
      0, 0, 0, 0,   1, -1, 1, -1] ! i"
  by (simp add: noise_ex_def shift_snth_less del: shift.simps)

subsection \<open>The generator\<close>

lemma gendat_eq:
  "gendat mode n g =
    (let x = stake n g;
         m = map (\<lambda>v. v / sqrt 2) (map2 (+) x (stake n (sdrop n g)));
         u = stake n (sdrop (n + n) g)
     in (\<lparr>col_x = x, col_m = m,
          col_y = (if mode = 0 then map2 (+) x u
                   else if mode = 1 then map2 (+) m u
                   else map2 (+) (map2 (+) m x) u)\<rparr>,
         sdrop (n + n + n) g))"
  by (simp add: gendat_def normal_def vadd_def vdiv_def Let_def)

text \<open>
  Claim C2. For every mode in \<open>{0, 1, 2}\<close> and every noise stream \<open>g\<close>, \<open>gendat\<close>
  returns \<open>n\<close> rows; row \<open>i\<close> has \<open>x\<close> the draw \<open>g !! i\<close>, \<open>m = (x + e) / sqrt 2\<close> for
  the separate draw \<open>e = g !! (n + i)\<close>, and \<open>y = x + u\<close> in mode 0, \<open>y = m + u\<close> in
  mode 1 and \<open>y = m + x + u\<close> in mode 2, for the third draw \<open>u = g !! (2 * n + i)\<close>.
  The generator has then moved on by \<open>3 * n\<close> values.
\<close>

theorem gendat_recipe:
  assumes "mode \<in> {0, 1, 2}"
  shows "length (col_x (fst (gendat mode n g))) = n
    \<and> length (col_m (fst (gendat mode n g))) = n
    \<and> length (col_y (fst (gendat mode n g))) = n
    \<and> (\<forall>i<n.
          col_x (fst (gendat mode n g)) ! i = g !! i
        \<and> col_m (fst (gendat mode n g)) ! i = (g !! i + g !! (n + i)) / sqrt 2
        \<and> (mode = 0 \<longrightarrow> col_y (fst (gendat mode n g)) ! i
              = col_x (fst (gendat mode n g)) ! i + g !! (2 * n + i))
        \<and> (mode = 1 \<longrightarrow> col_y (fst (gendat mode n g)) ! i
              = col_m (fst (gendat mode n g)) ! i + g !! (2 * n + i))
        \<and> (mode = 2 \<longrightarrow> col_y (fst (gendat mode n g)) ! i
              = col_m (fst (gendat mode n g)) ! i + col_x (fst (gendat mode n g)) ! i
                  + g !! (2 * n + i)))
    \<and> snd (gendat mode n g) = sdrop (3 * n) g"
proof -
  have three: "3 * n = n + n + n" and two: "2 * n = n + n"
    by simp_all
  show ?thesis
    unfolding gendat_eq three two
    by (simp add: Let_def sdrop_snth)
qed

text \<open>Mode 2 with two subjects, on the noise of the example.\<close>

theorem gendat_recipe_witness:
  "(2::int) \<in> {0, 1, 2}
   \<and> length (col_y (fst (gendat 2 2 noise_ex))) = 2
   \<and> col_x (fst (gendat 2 2 noise_ex)) ! 1 = - 1
   \<and> col_m (fst (gendat 2 2 noise_ex)) ! 1 = (- 1 + - 1) / sqrt 2
   \<and> col_y (fst (gendat 2 2 noise_ex)) ! 1 = (- 1 + - 1) / sqrt 2 + - 1 + 1
   \<and> snd (gendat 2 2 noise_ex) = sdrop (3 * 2) noise_ex"
proof -
  have m: "(2::int) \<in> {0, 1, 2}"
    by simp
  have v: "noise_ex !! 1 = - 1" "noise_ex !! (2 + 1) = - 1" "noise_ex !! (2 * 2 + 1) = 1"
    using noise_ex_nth [of 1] noise_ex_nth [of 3] noise_ex_nth [of 5] by simp_all
  have one: "(1::nat) < 2"
    by simp
  note r = gendat_recipe [OF m, of 2 noise_ex]
  note len = r [THEN conjunct2, THEN conjunct2, THEN conjunct1]
  note row = r [THEN conjunct2, THEN conjunct2, THEN conjunct2, THEN conjunct1, rule_format, OF one]
  note rest = r [THEN conjunct2, THEN conjunct2, THEN conjunct2, THEN conjunct2]
  have x1: "col_x (fst (gendat 2 2 noise_ex)) ! 1 = - 1"
    using row [THEN conjunct1] unfolding v .
  have m1: "col_m (fst (gendat 2 2 noise_ex)) ! 1 = (- 1 + - 1) / sqrt 2"
    using row [THEN conjunct2, THEN conjunct1] unfolding v .
  have y1: "col_y (fst (gendat 2 2 noise_ex)) ! 1 = (- 1 + - 1) / sqrt 2 + - 1 + 1"
    using row [THEN conjunct2, THEN conjunct2, THEN conjunct2, THEN conjunct2, rule_format, OF refl]
    unfolding v x1 m1 .
  show ?thesis
    using m len x1 m1 y1 rest by (intro conjI) assumption+
qed

text \<open>
  Claim C9. For every integer mode other than 0 and 1 (3 and -1 among them), \<open>gendat\<close>
  rejects nothing: it returns what it returns for mode 2, the partial-mediation rows
  \<open>y = m + x + u\<close>.
\<close>

theorem gendat_other_modes:
  assumes "mode \<noteq> 0" and "mode \<noteq> 1"
  shows "gendat mode n g = gendat 2 n g
    \<and> length (col_y (fst (gendat mode n g))) = n
    \<and> (\<forall>i<n. col_y (fst (gendat mode n g)) ! i =
          col_m (fst (gendat mode n g)) ! i + col_x (fst (gendat mode n g)) ! i
            + g !! (2 * n + i))"
proof -
  have two: "2 * n = n + n"
    by simp
  show ?thesis
    unfolding gendat_eq two using assms
    by (simp add: Let_def sdrop_snth)
qed

text \<open>The modes 3 and -1, outside the documented ones.\<close>

theorem gendat_other_modes_witness:
  "(3::int) \<noteq> 0 \<and> (3::int) \<noteq> 1 \<and> (- 1::int) \<noteq> 0 \<and> (- 1::int) \<noteq> 1
   \<and> gendat 3 2 noise_ex = gendat 2 2 noise_ex
   \<and> gendat (- 1) 2 noise_ex = gendat 2 2 noise_ex
   \<and> length (col_y (fst (gendat 3 2 noise_ex))) = 2"
proof -
  have h: "(3::int) \<noteq> 0" "(3::int) \<noteq> 1" and k: "(- 1::int) \<noteq> 0" "(- 1::int) \<noteq> 1"
    by simp_all
  note a = gendat_other_modes [OF h, of 2 noise_ex]
    and b = gendat_other_modes [OF k, of 2 noise_ex]
  show ?thesis
    using h k a [THEN conjunct1] b [THEN conjunct1] a [THEN conjunct2, THEN conjunct1]
    by (intro conjI) assumption+
qed

subsection \<open>The effects and their standard errors\<close>

lemma stake_sdrop_map: "stake n (sdrop k g) = map (\<lambda>i. g !! (k + i)) [0..<n]"
  by (rule nth_equalityI) (simp_all add: sdrop_snth)

lemma map2_upt: "map2 f (map a [0..<n]) (map b [0..<n]) = map (\<lambda>i. f (a i) (b i)) [0..<n]"
  by (rule nth_equalityI) simp_all

lemma replicate_upt: "replicate n c = map (\<lambda>_. c) [0..<n]"
  by (rule nth_equalityI) simp_all

lemma np_mean_upt: "0 < n \<Longrightarrow> np_mean (map f [0..<n]) = Some (mean_upto n f)"
  by (simp add: np_mean_def mean_upto_def interv_sum_list_conv_sum_set_nat atLeast0LessThan)

lemma frame_cols:
  "col_x (set_x c d) = replicate (length (col_x d)) c"
  "col_m (set_x c d) = col_m d"
  "col_x (set_m v d) = col_x d"
  "col_m (set_m v d) = v"
  by (simp_all add: set_x_def set_m_def)

lemma gendat_shape:
  "length (col_x (fst (gendat mode n g))) = n"
  "snd (gendat mode n g) = sdrop (3 * n) g"
proof -
  have three: "3 * n = n + n + n"
    by simp
  show "length (col_x (fst (gendat mode n g))) = n"
    by (simp add: gendat_def normal_def Let_def split_def)
  show "snd (gendat mode n g) = sdrop (3 * n) g"
    unfolding three by (simp add: gendat_def normal_def Let_def split_def)
qed

lemma m_cf:
  assumes "length (col_x d) = n"
  shows "vadd (m_predict f (set_x c d)) (vscale (sqrt (m_scale f)) (stake n (sdrop k g)))
          = map (\<lambda>i. cf_mediator f c (g !! (k + i))) [0..<n]"
  unfolding vadd_def vscale_def m_predict_def frame_cols assms stake_sdrop_map replicate_upt
  by (simp add: map2_upt cf_mediator_def del: upt_Suc)

lemma o_cf:
  assumes "col_x d = replicate n c" and "col_m d = map mf [0..<n]"
  shows "vadd (o_predict f d) (vscale (sqrt (o_scale f)) (stake n (sdrop k g)))
          = map (\<lambda>i. cf_outcome f c (mf i) (g !! (k + i))) [0..<n]"
  unfolding vadd_def vscale_def o_predict_def assms stake_sdrop_map replicate_upt
  by (simp add: map2_upt cf_outcome_def del: upt_Suc)

lemma fake_mediation_lists:
  "fst (fake_mediation ols_m ols_o mode n g) =
    (let ai = map (aie_contrast ols_m ols_o mode n g) [0..<n];
         ad = map (ade_contrast ols_m ols_o mode n g) [0..<n]
     in (np_mean ai, map_option (\<lambda>s. s / sqrt (real n)) (np_std ai),
         np_mean ad, map_option (\<lambda>s. s / sqrt (real n)) (np_std ad)))"
proof -
  obtain df g1 where dg: "gendat mode n g = (df, g1)"
    by (cases "gendat mode n g")
  have g1: "g1 = sdrop (3 * n) g" and lx: "length (col_x df) = n" and df: "df = fst (gendat mode n g)"
    using gendat_shape [of mode n g] dg by simp_all
  define mm where "mm = ols_m df"
  define om where "om = ols_o df"
  define mlow where "mlow = (\<lambda>i. cf_mediator mm 0 (g !! (3 * n + i)))"
  define mhigh where "mhigh = (\<lambda>i. cf_mediator mm 1 (g !! (4 * n + i)))"
  have offs: "3 * n + n = 4 * n" "4 * n + n = 5 * n" "5 * n + n = 6 * n" "6 * n + n = 7 * n"
    "7 * n + n = 8 * n"
    by simp_all
  have ml: "vadd (m_predict mm (set_x 0 df)) (vscale (sqrt (m_scale mm)) (stake n (sdrop (3 * n) g)))
      = map mlow [0..<n]"
    unfolding mlow_def by (rule m_cf [OF lx])
  have mh: "vadd (m_predict mm (set_x 1 df)) (vscale (sqrt (m_scale mm)) (stake n (sdrop (4 * n) g)))
      = map mhigh [0..<n]"
    unfolding mhigh_def by (rule m_cf [OF lx])
  have y1: "vadd (o_predict om (set_m (map mlow [0..<n]) (set_x 0 df)))
        (vscale (sqrt (o_scale om)) (stake n (sdrop k g)))
      = map (\<lambda>i. cf_outcome om 0 (mlow i) (g !! (k + i))) [0..<n]" for k
    by (rule o_cf) (simp_all add: frame_cols lx)
  have y2: "vadd (o_predict om (set_m (map mhigh [0..<n]) (set_x 0 (set_m (map mlow [0..<n]) (set_x 0 df)))))
        (vscale (sqrt (o_scale om)) (stake n (sdrop k g)))
      = map (\<lambda>i. cf_outcome om 0 (mhigh i) (g !! (k + i))) [0..<n]" for k
    by (rule o_cf) (simp_all add: frame_cols lx)
  have y3: "vadd (o_predict om (set_x 1 (set_m (map mlow [0..<n]) (set_x 0 df))))
        (vscale (sqrt (o_scale om)) (stake n (sdrop k g)))
      = map (\<lambda>i. cf_outcome om 1 (mlow i) (g !! (k + i))) [0..<n]" for k
    by (rule o_cf) (simp_all add: frame_cols lx)
  have ai: "aie_contrast ols_m ols_o mode n g
      = (\<lambda>i. cf_outcome om 0 (mhigh i) (g !! (6 * n + i)) - cf_outcome om 0 (mlow i) (g !! (5 * n + i)))"
    by (rule ext) (simp add: aie_contrast_def Let_def df [symmetric] mm_def om_def mlow_def mhigh_def)
  have ad: "ade_contrast ols_m ols_o mode n g
      = (\<lambda>i. cf_outcome om 1 (mlow i) (g !! (8 * n + i)) - cf_outcome om 0 (mlow i) (g !! (7 * n + i)))"
    by (rule ext) (simp add: ade_contrast_def Let_def df [symmetric] mm_def om_def mlow_def)
  show ?thesis
    unfolding fake_mediation_def dg ai ad
    by (simp add: Let_def normal_def g1 offs mm_def [symmetric] om_def [symmetric]
        ml mh y1 y2 y3 vsub_def map2_upt del: upt_Suc)
qed

lemma np_std_upt: "0 < n \<Longrightarrow> np_std (map f [0..<n]) = Some (sd_upto n f)"
  by (simp add: np_std_def np_mean_upt sd_upto_def comp_def del: upt_Suc)

lemma gendat_ex:
  "fst (gendat 0 4 noise_ex) =
     \<lparr>col_x = [1, -1, 1, -1], col_m = [sqrt 2, 0, 0, - sqrt 2], col_y = [2, -2, 0, 0]\<rparr>"
  by (simp add: gendat_def normal_def Let_def vadd_def vdiv_def noise_ex_def eval_nat_numeral
      real_div_sqrt)

lemma solver_ex:
  "least_squares_m (ols_m_ex (fst (gendat 0 4 noise_ex))) (fst (gendat 0 4 noise_ex))"
  "least_squares_o (ols_o_ex (fst (gendat 0 4 noise_ex))) (fst (gendat 0 4 noise_ex))"
  unfolding gendat_ex
  by (simp_all add: least_squares_m_def least_squares_o_def ols_m_ex_def ols_o_ex_def Let_def
      vsub_def m_predict_def o_predict_def dot_def)

lemma aie_contrast_ex:
  "map (aie_contrast ols_m_ex ols_o_ex 0 4 noise_ex) [0, 1, 2, 3] = [2, -2, 2, -2]"
  by (simp add: aie_contrast_def Let_def cf_outcome_def cf_mediator_def ols_m_ex_def ols_o_ex_def
     noise_ex_nth)

lemma ade_contrast_ex:
  "map (ade_contrast ols_m_ex ols_o_ex 0 4 noise_ex) [0, 1, 2, 3] = [3, -1, 3, -1]"
  by (simp add: ade_contrast_def Let_def cf_outcome_def cf_mediator_def ols_m_ex_def ols_o_ex_def
     noise_ex_nth)

lemma sum_upto_4: "(\<Sum>i<4. f i) = sum_list (map f [0, 1, 2, 3::nat])"
  by (simp add: eval_nat_numeral add.assoc)


text \<open>
  Claim C1. For every mode, with \<open>n > 0\<close> subjects and non-negative fitted scales, the
  average indirect effect that \<open>fake_mediation\<close> returns is the mean over the \<open>n\<close>
  subjects of the outcome predicted at exposure 0 with the mediator at its high
  counterfactual draw (exposure 1) minus the outcome predicted at exposure 0 with the
  mediator at its low draw (exposure 0); the average direct effect is the mean of the
  outcome predicted at exposure 1 minus the outcome predicted at exposure 0, the mediator
  at its low draw in both. Every counterfactual prediction, of the mediator and of the
  outcome, has a fresh noise draw times the square root of its model's scale added.
\<close>

theorem fake_mediation_effects:
  assumes "0 < n"
    and "0 \<le> m_scale (ols_m (fst (gendat mode n g)))"
    and "0 \<le> o_scale (ols_o (fst (gendat mode n g)))"
  shows "fst (fst (fake_mediation ols_m ols_o mode n g))
           = Some (mean_upto n (aie_contrast ols_m ols_o mode n g))
       \<and> fst (snd (snd (fst (fake_mediation ols_m ols_o mode n g))))
           = Some (mean_upto n (ade_contrast ols_m ols_o mode n g))"
  using assms(1) by (simp add: fake_mediation_lists Let_def np_mean_upt del: upt_Suc)

text \<open>
  The run with four subjects: the fits are the least-squares fits of the generated frame,
  the indirect effect is 0 and the direct effect is 1.
\<close>

theorem fake_mediation_effects_witness:
  "0 < (4::nat)
   \<and> 0 \<le> m_scale (ols_m_ex (fst (gendat 0 4 noise_ex)))
   \<and> 0 \<le> o_scale (ols_o_ex (fst (gendat 0 4 noise_ex)))
   \<and> least_squares_m (ols_m_ex (fst (gendat 0 4 noise_ex))) (fst (gendat 0 4 noise_ex))
   \<and> least_squares_o (ols_o_ex (fst (gendat 0 4 noise_ex))) (fst (gendat 0 4 noise_ex))
   \<and> fst (fst (fake_mediation ols_m_ex ols_o_ex 0 4 noise_ex)) = Some 0
   \<and> fst (snd (snd (fst (fake_mediation ols_m_ex ols_o_ex 0 4 noise_ex)))) = Some 1"
proof -
  have s: "0 \<le> m_scale (ols_m_ex (fst (gendat 0 4 noise_ex)))"
    "0 \<le> o_scale (ols_o_ex (fst (gendat 0 4 noise_ex)))"
    by (simp_all add: ols_m_ex_def ols_o_ex_def)
  have a: "mean_upto 4 (aie_contrast ols_m_ex ols_o_ex 0 4 noise_ex) = 0"
    using aie_contrast_ex by (simp add: mean_upto_def sum_upto_4)
  have d: "mean_upto 4 (ade_contrast ols_m_ex ols_o_ex 0 4 noise_ex) = 1"
    using ade_contrast_ex by (simp add: mean_upto_def sum_upto_4)
  show ?thesis
    using fake_mediation_effects [of 4 ols_m_ex 0 noise_ex ols_o_ex] s solver_ex a d
    by simp
qed

text \<open>
  Claim C5, as amended. For both effects, with \<open>n > 0\<close> and non-negative fitted scales,
  the standard error that \<open>fake_mediation\<close> returns is the standard deviation of the \<open>n\<close>
  per-unit contrasts taken with the divisor \<open>n\<close> (\<open>np.std\<close> with its default
  \<open>ddof = 0\<close>), divided by the square root of \<open>n\<close>.
\<close>

theorem fake_mediation_se:
  assumes "0 < n"
    and "0 \<le> m_scale (ols_m (fst (gendat mode n g)))"
    and "0 \<le> o_scale (ols_o (fst (gendat mode n g)))"
  shows "fst (snd (fst (fake_mediation ols_m ols_o mode n g)))
           = Some (sd_upto n (aie_contrast ols_m ols_o mode n g) / sqrt (real n))
       \<and> snd (snd (snd (fst (fake_mediation ols_m ols_o mode n g))))
           = Some (sd_upto n (ade_contrast ols_m ols_o mode n g) / sqrt (real n))"
  using assms(1) by (simp add: fake_mediation_lists Let_def np_std_upt del: upt_Suc)

lemma sd_ex:
  "sd_upto 4 (aie_contrast ols_m_ex ols_o_ex 0 4 noise_ex) = 2"
  "sd_upto 4 (ade_contrast ols_m_ex ols_o_ex 0 4 noise_ex) = 2"
  "sample_sd_upto 4 (aie_contrast ols_m_ex ols_o_ex 0 4 noise_ex) = sqrt (16 / 3)"
  "sample_sd_upto 4 (ade_contrast ols_m_ex ols_o_ex 0 4 noise_ex) = sqrt (16 / 3)"
  using aie_contrast_ex ade_contrast_ex
  by (simp_all add: sd_upto_def sample_sd_upto_def mean_upto_def sum_upto_4)

theorem fake_mediation_se_witness:
  "0 < (4::nat)
   \<and> 0 \<le> m_scale (ols_m_ex (fst (gendat 0 4 noise_ex)))
   \<and> 0 \<le> o_scale (ols_o_ex (fst (gendat 0 4 noise_ex)))
   \<and> fst (snd (fst (fake_mediation ols_m_ex ols_o_ex 0 4 noise_ex))) = Some 1
   \<and> snd (snd (snd (fst (fake_mediation ols_m_ex ols_o_ex 0 4 noise_ex)))) = Some 1"
proof -
  have s: "0 \<le> m_scale (ols_m_ex (fst (gendat 0 4 noise_ex)))"
    "0 \<le> o_scale (ols_o_ex (fst (gendat 0 4 noise_ex)))"
    by (simp_all add: ols_m_ex_def ols_o_ex_def)
  show ?thesis
    using fake_mediation_se [of 4 ols_m_ex 0 noise_ex ols_o_ex] s sd_ex
    by simp
qed

text \<open>
  Claim C5 as stated fails: in the run with four subjects both standard errors are 1,
  and the sample standard deviation (divisor \<open>n - 1\<close>) of the contrasts over the square
  root of \<open>n\<close> is \<open>sqrt (16 / 3) / 2\<close>.
\<close>

theorem fake_mediation_se_counterexample:
  "least_squares_m (ols_m_ex (fst (gendat 0 4 noise_ex))) (fst (gendat 0 4 noise_ex))
   \<and> least_squares_o (ols_o_ex (fst (gendat 0 4 noise_ex))) (fst (gendat 0 4 noise_ex))
   \<and> fst (snd (fst (fake_mediation ols_m_ex ols_o_ex 0 4 noise_ex)))
        \<noteq> Some (sample_sd_upto 4 (aie_contrast ols_m_ex ols_o_ex 0 4 noise_ex) / sqrt (real 4))
   \<and> snd (snd (snd (fst (fake_mediation ols_m_ex ols_o_ex 0 4 noise_ex))))
        \<noteq> Some (sample_sd_upto 4 (ade_contrast ols_m_ex ols_o_ex 0 4 noise_ex) / sqrt (real 4))"
proof -
  have ne: "sqrt (16 / 3) / 2 \<noteq> (1::real)"
  proof
    assume "sqrt (16 / 3) / 2 = (1::real)"
    then have "sqrt (16 / 3) = (2::real)"
      by simp
    then have "(sqrt (16 / 3))\<^sup>2 = (2::real)\<^sup>2"
      by simp
    then show False
      by simp
  qed
  have four: "sqrt (real 4) = 2"
    using real_sqrt_abs [of 2] by simp
  have "fst (snd (fst (fake_mediation ols_m_ex ols_o_ex 0 4 noise_ex))) = Some 1"
    "snd (snd (snd (fst (fake_mediation ols_m_ex ols_o_ex 0 4 noise_ex)))) = Some 1"
    using sd_ex(1,2) by (simp_all add: fake_mediation_lists Let_def np_std_upt del: upt_Suc)
  then show ?thesis
    using solver_ex ne by (simp add: sd_ex four)
qed

section \<open>Properties of the reshaping and of the model data\<close>

subsection \<open>The melt\<close>

lemma vvars_eq:
  "vvars =
    [''BPXSY1'', ''BPXSY2'', ''BPXSY3'', ''BPXSY4'', ''BPXDI1'', ''BPXDI2'', ''BPXDI3'', ''BPXDI4'']"
  by code_simp

lemma then_do_simps [simp]:
  "then_do (Inl e) f = Inl e"
  "then_do (Inr a) f = f a"
  by (simp_all add: then_do_def)

lemma melt_Inr:
  "\<forall>v\<in>set vs. column v \<noteq> None \<Longrightarrow> melt vs df = Inr (concat (melt_rows vs df))"
  by (induction vs) (auto simp: melt_rows_def)

lemma vvars_columns: "\<forall>v\<in>set vvars. column v \<noteq> None"
  by (simp add: vvars_eq column_def)

lemma melt_vvars: "melt vvars df = Inr (concat (melt_rows vvars df))"
  by (rule melt_Inr [OF vvars_columns])

lemma nth_concat_blocks:
  assumes "\<forall>b\<in>set bs. length b = n" and "j < n * length bs"
  shows "concat bs ! j = bs ! (j div n) ! (j mod n)"
  using assms
proof (induction bs arbitrary: j)
  case Nil
  then show ?case by simp
next
  case (Cons b bs)
  have lb: "length b = n"
    using Cons.prems(1) by simp
  show ?case
  proof (cases "j < n")
    case True
    then show ?thesis
      by (simp add: nth_append lb)
  next
    case False
    then have jn: "n \<le> j" and npos: "0 < n"
      using Cons.prems(2) by (auto intro: gr0I)
    have "j - n < n * length bs"
      using Cons.prems(2) jn by simp
    then have ih: "concat bs ! (j - n) = bs ! ((j - n) div n) ! ((j - n) mod n)"
      using Cons.IH Cons.prems(1) by simp
    have d: "j div n = Suc ((j - n) div n)"
      using jn npos by (simp add: le_div_geq)
    have m: "j mod n = (j - n) mod n"
      using jn by (simp add: le_mod_geq)
    show ?thesis
      using False by (simp add: nth_append lb ih d m)
  qed
qed

lemma length_concat_blocks:
  "\<forall>b\<in>set bs. length b = n \<Longrightarrow> length (concat bs) = n * length bs"
  by (induction bs) simp_all

lemma melt_rows_lengths:
  "\<forall>v\<in>set vs. column v \<noteq> None \<Longrightarrow> \<forall>b\<in>set (melt_rows vs df). length b = length df"
  by (auto simp: melt_rows_def)

text \<open>
  Claim C7. For every wide table the melt of the eight measurement columns (four
  systolic, four diastolic) succeeds and gives, before any filtering, eight rows per
  input row; the output row at position \<open>j\<close> has the identifier columns of the one input
  row at position \<open>j mod length df\<close>, the name of the measurement column at position
  \<open>j div length df\<close>, and that column's value in that input row.
\<close>

theorem melt_shape:
  "\<exists>dx. melt vvars df = Inr dx
     \<and> length vvars = 8
     \<and> length dx = length df * 8
     \<and> (\<forall>j<length dx.
           idvars.truncate (dx ! j) = idvars.truncate (df ! (j mod length df))
         \<and> bpvar (dx ! j) = vvars ! (j div length df)
         \<and> map_option (\<lambda>f. f (df ! (j mod length df))) (column (bpvar (dx ! j)))
             = Some (bp (dx ! j)))"
proof -
  let ?bs = "melt_rows vvars df"
  have l8: "length vvars = 8"
    by (simp add: vvars_eq)
  have lens: "\<forall>b\<in>set ?bs. length b = length df"
    by (rule melt_rows_lengths [OF vvars_columns])
  have lbs: "length ?bs = 8"
    by (simp add: melt_rows_def l8)
  have len: "length (concat ?bs) = length df * 8"
    using length_concat_blocks [OF lens] lbs by simp
  have row: "idvars.truncate (concat ?bs ! j) = idvars.truncate (df ! (j mod length df))
         \<and> bpvar (concat ?bs ! j) = vvars ! (j div length df)
         \<and> map_option (\<lambda>f. f (df ! (j mod length df))) (column (bpvar (concat ?bs ! j)))
             = Some (bp (concat ?bs ! j))"
    if j: "j < length (concat ?bs)" for j
  proof -
    have jl: "j < length df * length ?bs"
      using j len lbs by simp
    then have pos: "0 < length df"
      by (auto intro: gr0I)
    have q: "j div length df < length vvars"
      using jl lbs l8 pos by (simp add: less_mult_imp_div_less mult.commute)
    have r: "j mod length df < length df"
      using pos by simp
    obtain f where f: "column (vvars ! (j div length df)) = Some f"
      using vvars_columns q by (metis nth_mem option.exhaust)
    have "concat ?bs ! j = ?bs ! (j div length df) ! (j mod length df)"
      using nth_concat_blocks [OF lens] jl by simp
    also have "\<dots> = melt_row (vvars ! (j div length df)) f (df ! (j mod length df))"
      using q r f by (simp add: melt_rows_def)
    finally show ?thesis
      using f by (simp add: melt_row_def idvars.defs long_row.defs)
  qed
  show ?thesis
    using melt_vvars l8 len row by blast
qed

text \<open>In the small survey, output row 3 is subject 1's second systolic reading.\<close>

theorem melt_shape_witness:
  "\<exists>dx. melt vvars df_ex = Inr dx
     \<and> length dx = 16
     \<and> idvars.truncate (dx ! 3) = idvars.truncate (df_ex ! 1)
     \<and> bpvar (dx ! 3) = ''BPXSY2''
     \<and> bp (dx ! 3) = Some 112"
proof -
  from melt_shape [of df_ex] obtain dx where m: "melt vvars df_ex = Inr dx"
    and len: "length dx = length df_ex * 8"
    and rows: "\<forall>j<length dx.
           idvars.truncate (dx ! j) = idvars.truncate (df_ex ! (j mod length df_ex))
         \<and> bpvar (dx ! j) = vvars ! (j div length df_ex)
         \<and> map_option (\<lambda>f. f (df_ex ! (j mod length df_ex))) (column (bpvar (dx ! j)))
             = Some (bp (dx ! j))"
    by blast
  have l: "length df_ex = 2"
    by (simp add: df_ex_def)
  have "3 < length dx"
    using len l by simp
  note row3 = rows [rule_format, OF this]
  have a: "idvars.truncate (dx ! 3) = idvars.truncate (df_ex ! 1)"
    using row3 [THEN conjunct1] by (simp add: l)
  have b: "bpvar (dx ! 3) = ''BPXSY2''"
    using row3 [THEN conjunct2, THEN conjunct1] by (simp add: l vvars_eq)
  have c: "bp (dx ! 3) = Some 112"
    using row3 [THEN conjunct2, THEN conjunct2] unfolding b l
    by (simp add: column_def df_ex_def)
  show ?thesis
    using m len l a b c by simp
qed

subsection \<open>Complete cases\<close>

lemma sorts_by_SEQN_set: "sorts_by_SEQN srt \<Longrightarrow> set (srt t) = set t"
  unfolding sorts_by_SEQN_def by (metis mset_eq_setD)

lemma sorts_by_SEQN_sort_key: "sorts_by_SEQN (sort_key SEQN)"
  by (simp add: sorts_by_SEQN_def)

lemma set_melt_rows:
  "set (concat (melt_rows vs df)) = {melt_row v f r |v f r. v \<in> set vs \<and> column v = Some f \<and> r \<in> set df}"
  by (auto simp: melt_rows_def split: option.splits) force

lemma reshape_eq:
  "reshape srt df = Inr (dropna (SEQN_astype_int (srt (concat (melt_rows vvars df)))))"
  by (simp add: reshape_def melt_vvars)

lemma set_reshape:
  assumes "sorts_by_SEQN srt"
  shows "set (dropna (SEQN_astype_int (srt (concat (melt_rows vvars df))))) =
     {(melt_row v f r)\<lparr>SEQN := astype_int (SEQN r)\<rparr> |v f r.
        v \<in> set vvars \<and> column v = Some f \<and> r \<in> set df \<and> complete_case (melt_row v f r)}"
proof -
  have c: "complete_case (x\<lparr>SEQN := a\<rparr>) = complete_case x" for x a
    by (simp add: complete_case_def)
  have s: "SEQN (melt_row v f r) = SEQN r" for v f r
    by (simp add: melt_row_def idvars.defs long_row.defs)
  have "set (dropna (SEQN_astype_int (srt (concat (melt_rows vvars df))))) =
      {x\<lparr>SEQN := astype_int (SEQN x)\<rparr> |x. x \<in> set (concat (melt_rows vvars df)) \<and> complete_case x}"
    unfolding dropna_def SEQN_astype_int_def
    by (auto simp: sorts_by_SEQN_set [OF assms] c simp del: set_concat)
  also have "\<dots> = {(melt_row v f r)\<lparr>SEQN := astype_int (SEQN r)\<rparr> |v f r.
        v \<in> set vvars \<and> column v = Some f \<and> r \<in> set df \<and> complete_case (melt_row v f r)}"
    unfolding set_melt_rows by (auto simp: s; (blast | metis s))
  finally show ?thesis .
qed



subsection \<open>The derived mean and the join\<close>

lemma reshape_ex: "reshape (sort_key SEQN) df_ex = Inr lx_ex"
  by code_simp

lemma derive_ex: "derive lx_ex = Inr dx_ex"
  by code_simp

lemma map_of_di_mean_series:
  "map_of (di_mean_series dx) s =
     (if \<exists>r\<in>set dx. bpt r = ''DI'' \<and> SEQN r = s then Some (np_mean (di_readings dx s)) else None)"
proof -
  have f: "filter (\<lambda>r. SEQN r = s) (filter (\<lambda>r. bpt r = ''DI'') dx)
      = filter (\<lambda>r. bpt r = ''DI'' \<and> SEQN r = s) dx"
    by (simp add: conj_commute)
  show ?thesis
    unfolding di_mean_series_def Let_def map_of_map_restrict
    by (auto simp: restrict_map_def nanmean_def di_readings_def f)
qed

lemma di_readings_key:
  assumes "di_readings dx s \<noteq> []"
  shows "\<exists>r\<in>set dx. bpt r = ''DI'' \<and> SEQN r = s"
proof (rule ccontr)
  assume "\<not> (\<exists>r\<in>set dx. bpt r = ''DI'' \<and> SEQN r = s)"
  then have "filter (\<lambda>r. bpt r = ''DI'' \<and> SEQN r = s) dx = []"
    by (simp add: filter_empty_conv)
  then show False
    using assms by (simp add: di_readings_def List.map_filter_simps)
qed

lemma set_merge_di_mean:
  "set (merge_di_mean dx ser) =
     {derived_row.extend r (merged_row.fields d) |r d. r \<in> set dx \<and> map_of ser (SEQN r) = Some d}"
  by (induction dx) (auto simp: merge_di_mean_def List.map_filter_simps split: option.splits)

lemma merged_fields:
  "SEQN (derived_row.extend r (merged_row.fields d)) = SEQN r"
  "bpt (derived_row.extend r (merged_row.fields d)) = bpt r"
  "bpvar (derived_row.extend r (merged_row.fields d)) = bpvar r"
  "bpi (derived_row.extend r (merged_row.fields d)) = bpi r"
  "di_mean (derived_row.extend r (merged_row.fields d)) = d"
  by (simp_all add: derived_row.defs merged_row.defs)

text \<open>
  Claim C4. Let a subject have \<open>k \<ge> 1\<close> non-missing diastolic readings in the table the
  derived mean is computed from. Every row \<open>x\<close> of the subject in that table, its
  systolic rows among them, is in the joined table with \<open>di_mean\<close> equal to the sum of
  those \<open>k\<close> values over \<open>k\<close>, and every row of the subject in the joined table has
  that value. The \<open>k\<close> values are those of the subject's own diastolic rows and no
  others.
\<close>

theorem di_mean_is_subject_mean:
  assumes "x \<in> set dx" and "di_readings dx (SEQN x) \<noteq> []"
  shows "derived_row.extend x
           (merged_row.fields
              (Some (sum_list (di_readings dx (SEQN x)) / real (length (di_readings dx (SEQN x))))))
           \<in> set (merge_di_mean dx (di_mean_series dx))
       \<and> (\<forall>y\<in>set (merge_di_mean dx (di_mean_series dx)).
             SEQN y = SEQN x \<longrightarrow>
             di_mean y =
               Some (sum_list (di_readings dx (SEQN x)) / real (length (di_readings dx (SEQN x)))))"
proof -
  let ?mu = "Some (sum_list (di_readings dx (SEQN x)) / real (length (di_readings dx (SEQN x))))"
  have key: "map_of (di_mean_series dx) (SEQN x) = Some ?mu"
    using di_readings_key [OF assms(2)] assms(2)
    by (simp add: map_of_di_mean_series np_mean_def)
  have a: "derived_row.extend x (merged_row.fields ?mu) \<in> set (merge_di_mean dx (di_mean_series dx))"
    unfolding set_merge_di_mean using assms(1) key by blast
  have b: "di_mean y = ?mu"
    if "y \<in> set (merge_di_mean dx (di_mean_series dx))" and "SEQN y = SEQN x" for y
  proof -
    from that(1) obtain r d where y: "y = derived_row.extend r (merged_row.fields d)"
      and d: "map_of (di_mean_series dx) (SEQN r) = Some d"
      unfolding set_merge_di_mean by blast
    have "SEQN r = SEQN x"
      using that(2) y by (simp add: merged_fields)
    then have "d = ?mu"
      using d key by simp
    then show ?thesis
      using y by (simp add: merged_fields)
  qed
  show ?thesis
    using a b by blast
qed

text \<open>
  Subject 2 of the small survey, in the table the notebook derives from it: the systolic
  row gets the mean 75 of the diastolic readings 80 and 70.
\<close>

theorem di_mean_is_subject_mean_witness:
  "reshape (sort_key SEQN) df_ex = Inr lx_ex
   \<and> derive lx_ex = Inr dx_ex
   \<and> dx_ex ! 2 \<in> set dx_ex
   \<and> bpt (dx_ex ! 2) = ''SY''
   \<and> di_readings dx_ex (SEQN (dx_ex ! 2)) = [80, 70]
   \<and> di_readings dx_ex (SEQN (dx_ex ! 2)) \<noteq> []
   \<and> derived_row.extend (dx_ex ! 2) (merged_row.fields (Some 75))
       \<in> set (merge_di_mean dx_ex (di_mean_series dx_ex))"
proof -
  have x: "dx_ex ! 2 \<in> set dx_ex" and t: "bpt (dx_ex ! 2) = ''SY''"
    by (simp_all add: dx_ex_def)
  have v: "di_readings dx_ex (SEQN (dx_ex ! 2)) = [80, 70]"
    by (simp add: dx_ex_def di_readings_def List.map_filter_simps)
  have n: "di_readings dx_ex (SEQN (dx_ex ! 2)) \<noteq> []"
    unfolding v by simp
  show ?thesis
    using di_mean_is_subject_mean [OF x n] reshape_ex derive_ex x t v n by simp
qed

lemma str_5_vvars: "v \<in> set vvars \<Longrightarrow> \<exists>i. str_5_astype_int v = Inr i"
  by (auto simp: vvars_eq str_5_astype_int_def)

lemma derive_total: "\<forall>r\<in>set lx. bpvar r \<in> set vvars \<Longrightarrow> \<exists>dx. derive lx = Inr dx"
proof (induction lx)
  case Nil
  then show ?case by simp
next
  case (Cons r lx)
  then obtain dx where "derive lx = Inr dx"
    by auto
  moreover obtain i where "str_5_astype_int (bpvar r) = Inr i"
    using str_5_vvars Cons.prems by auto
  ultimately show ?case
    by simp
qed

lemma derive_row_fields:
  "SEQN (derive_row r i) = SEQN r"
  "bpt (derive_row r i) = str_3_5 (bpvar r)"
  "bpvar (derive_row r i) = bpvar r"
  by (simp_all add: derive_row_def long_row.defs derived_row.defs)

lemma derive_maps:
  "derive lx = Inr dx \<Longrightarrow>
     map (\<lambda>y. (SEQN y, bpt y)) dx = map (\<lambda>r. (SEQN r, str_3_5 (bpvar r))) lx"
proof (induction lx arbitrary: dx)
  case Nil
  then show ?case by simp
next
  case (Cons r lx)
  then show ?case
    by (auto simp: then_do_def derive_row_fields split: sum.splits)
qed

lemma reshape_bpvar:
  assumes "sorts_by_SEQN srt" and "reshape srt df = Inr lx" and "r \<in> set lx"
  shows "bpvar r \<in> set vvars"
proof -
  have "lx = dropna (SEQN_astype_int (srt (concat (melt_rows vvars df))))"
    using assms(2) by (simp add: reshape_eq)
  then obtain v f w where "r = (melt_row v f w)\<lparr>SEQN := astype_int (SEQN w)\<rparr>" and "v \<in> set vvars"
    using set_reshape [OF assms(1), of df] assms(3) by auto
  then show ?thesis
    by (simp add: melt_row_def idvars.defs long_row.defs)
qed

lemma prepare_eq:
  assumes "sorts_by_SEQN srt"
  shows "\<exists>lx dx. reshape srt df = Inr lx \<and> derive lx = Inr dx
     \<and> prepare srt df = Inr (merge_di_mean dx (di_mean_series dx))"
proof -
  obtain lx where lx: "reshape srt df = Inr lx"
    by (simp add: reshape_eq)
  have "\<forall>r\<in>set lx. bpvar r \<in> set vvars"
    using reshape_bpvar [OF assms lx] by blast
  then obtain dx where "derive lx = Inr dx"
    using derive_total by blast
  then show ?thesis
    using lx by (simp add: prepare_def)
qed

lemma merged_subject_has_DI:
  assumes "y \<in> set (merge_di_mean dx (di_mean_series dx))"
  shows "\<exists>r\<in>set dx. bpt r = ''DI'' \<and> SEQN r = SEQN y"
proof -
  from assms obtain r d where y: "y = derived_row.extend r (merged_row.fields d)"
    and d: "map_of (di_mean_series dx) (SEQN r) = Some d"
    unfolding set_merge_di_mean by blast
  have "\<exists>q\<in>set dx. bpt q = ''DI'' \<and> SEQN q = SEQN r"
    using d by (simp add: map_of_di_mean_series split: if_splits)
  then show ?thesis
    using y by (simp add: merged_fields)
qed

lemma extended_SEQN:
  "SEQN (add_bpi_cen r) = SEQN r"
  "SEQN (add_sy_di r) = SEQN r"
  "SEQN (add_rep q) = SEQN q"
  by (simp_all add: add_bpi_cen_def add_sy_di_def add_rep_def merged_row.defs centered_row.defs
      sy_di_row.defs rep_row.defs)

lemma fit_data_fields:
  "model1_data (fit_data dx) = take 5000 dx"
  "model2_data (fit_data dx) = filter (\<lambda>r. bpt r = ''SY'') (take 5000 dx)"
  "model3_data (fit_data dx) = filter (\<lambda>r. bpt r = ''SY'') (take 5000 dx)"
  "model4_data (fit_data dx) = filter (\<lambda>r. bpt r = ''DI'') (take 5000 dx)"
  "model5_data (fit_data dx) = filter (\<lambda>r. bpt r = ''DI'') (take 5000 dx)"
  "model6_data (fit_data dx) = map add_bpi_cen (filter (\<lambda>r. bpt r = ''DI'') (take 5000 dx))"
  "model7_data (fit_data dx) = take 5000 dx"
  "model8_data (fit_data dx) = take 5000 dx"
  "model9_data (fit_data dx) = map add_sy_di (take 5000 dx)"
  "model10_data (fit_data dx) = map add_rep (map add_sy_di (take 5000 dx))"
  "model11_data (fit_data dx) = map add_rep (map add_sy_di (take 5000 dx))"
  by (simp_all add: fit_data_def iloc_0_5000_def Let_def)

lemma fit_data_subjects:
  "SEQN ` set (model1_data (fit_data dx)) \<subseteq> SEQN ` set dx"
  "SEQN ` set (model2_data (fit_data dx)) \<subseteq> SEQN ` set dx"
  "SEQN ` set (model3_data (fit_data dx)) \<subseteq> SEQN ` set dx"
  "SEQN ` set (model4_data (fit_data dx)) \<subseteq> SEQN ` set dx"
  "SEQN ` set (model5_data (fit_data dx)) \<subseteq> SEQN ` set dx"
  "SEQN ` set (model6_data (fit_data dx)) \<subseteq> SEQN ` set dx"
  "SEQN ` set (model7_data (fit_data dx)) \<subseteq> SEQN ` set dx"
  "SEQN ` set (model8_data (fit_data dx)) \<subseteq> SEQN ` set dx"
  "SEQN ` set (model9_data (fit_data dx)) \<subseteq> SEQN ` set dx"
  "SEQN ` set (model10_data (fit_data dx)) \<subseteq> SEQN ` set dx"
  "SEQN ` set (model11_data (fit_data dx)) \<subseteq> SEQN ` set dx"
proof -
  have t: "SEQN ` set (take 5000 dx) \<subseteq> SEQN ` set dx"
    by (rule image_mono [OF set_take_subset])
  have f: "SEQN ` set (filter P (take 5000 dx)) \<subseteq> SEQN ` set dx" for P
    using t by auto
  have c: "SEQN ` set (map add_bpi_cen xs) = SEQN ` set xs" for xs
    by (simp add: image_image extended_SEQN)
  have i: "SEQN ` set (map add_sy_di xs) = SEQN ` set xs" for xs
    by (simp add: image_image extended_SEQN)
  have r: "SEQN ` set (map add_rep ys) = SEQN ` set ys" for ys
    by (simp add: image_image extended_SEQN)
  show "SEQN ` set (model1_data (fit_data dx)) \<subseteq> SEQN ` set dx"
    "SEQN ` set (model7_data (fit_data dx)) \<subseteq> SEQN ` set dx"
    "SEQN ` set (model8_data (fit_data dx)) \<subseteq> SEQN ` set dx"
    unfolding fit_data_fields by (rule t)+
  show "SEQN ` set (model2_data (fit_data dx)) \<subseteq> SEQN ` set dx"
    "SEQN ` set (model3_data (fit_data dx)) \<subseteq> SEQN ` set dx"
    "SEQN ` set (model4_data (fit_data dx)) \<subseteq> SEQN ` set dx"
    "SEQN ` set (model5_data (fit_data dx)) \<subseteq> SEQN ` set dx"
    unfolding fit_data_fields by (rule f)+
  show "SEQN ` set (model6_data (fit_data dx)) \<subseteq> SEQN ` set dx"
    unfolding fit_data_fields c by (rule f)
  show "SEQN ` set (model9_data (fit_data dx)) \<subseteq> SEQN ` set dx"
    unfolding fit_data_fields i by (rule t)
  show "SEQN ` set (model10_data (fit_data dx)) \<subseteq> SEQN ` set dx"
    "SEQN ` set (model11_data (fit_data dx)) \<subseteq> SEQN ` set dx"
    unfolding fit_data_fields r i by (rule t)+
qed

text \<open>
  Claim C3, as amended. A subject with no diastolic row in the filtered long table (it
  may have systolic rows) has no key in the series of derived means, so the inner join
  drops every row of the subject: the joined table holds no row of the subject, and
  neither does the data of any of the eleven models fitted afterwards, the models that
  do not use the derived mean (model 2 among them) included.
\<close>

theorem no_diastolic_no_rows:
  assumes "sorts_by_SEQN srt"
    and "reshape srt df = Inr lx"
    and "\<forall>r\<in>set lx. SEQN r = s \<longrightarrow> str_3_5 (bpvar r) \<noteq> ''DI''"
  shows "\<exists>dx md. prepare srt df = Inr dx \<and> nhanes_bp srt df = Inr md
     \<and> s \<notin> SEQN ` set dx
     \<and> s \<notin> SEQN ` set (model1_data md) \<and> s \<notin> SEQN ` set (model2_data md)
     \<and> s \<notin> SEQN ` set (model3_data md) \<and> s \<notin> SEQN ` set (model4_data md)
     \<and> s \<notin> SEQN ` set (model5_data md) \<and> s \<notin> SEQN ` set (model6_data md)
     \<and> s \<notin> SEQN ` set (model7_data md) \<and> s \<notin> SEQN ` set (model8_data md)
     \<and> s \<notin> SEQN ` set (model9_data md) \<and> s \<notin> SEQN ` set (model10_data md)
     \<and> s \<notin> SEQN ` set (model11_data md)"
proof -
  from prepare_eq [OF assms(1), of df] assms(2)
  obtain d where d: "derive lx = Inr d"
    and p: "prepare srt df = Inr (merge_di_mean d (di_mean_series d))"
    by auto
  let ?dx = "merge_di_mean d (di_mean_series d)"
  have out: "s \<notin> SEQN ` set ?dx"
  proof
    assume "s \<in> SEQN ` set ?dx"
    then obtain y where "y \<in> set ?dx" and "SEQN y = s"
      by auto
    then obtain r where "r \<in> set d" and "bpt r = ''DI''" and "SEQN r = s"
      using merged_subject_has_DI by blast
    then have "(s, ''DI'') \<in> set (map (\<lambda>y. (SEQN y, bpt y)) d)"
      by force
    then have "(s, ''DI'') \<in> set (map (\<lambda>r. (SEQN r, str_3_5 (bpvar r))) lx)"
      unfolding derive_maps [OF d] .
    then show False
      using assms(3) by auto
  qed
  have n: "nhanes_bp srt df = Inr (fit_data ?dx)"
    by (simp add: nhanes_bp_def p)
  have sub: "s \<notin> A" if "A \<subseteq> SEQN ` set ?dx" for A
    using out that by blast
  show ?thesis
  proof (intro exI conjI)
    show "prepare srt df = Inr ?dx"
      by (rule p)
    show "nhanes_bp srt df = Inr (fit_data ?dx)"
      by (rule n)
    show "s \<notin> SEQN ` set ?dx"
      by (rule out)
    show "s \<notin> SEQN ` set (model1_data (fit_data ?dx))"
      by (rule sub [OF fit_data_subjects(1)])
    show "s \<notin> SEQN ` set (model2_data (fit_data ?dx))"
      by (rule sub [OF fit_data_subjects(2)])
    show "s \<notin> SEQN ` set (model3_data (fit_data ?dx))"
      by (rule sub [OF fit_data_subjects(3)])
    show "s \<notin> SEQN ` set (model4_data (fit_data ?dx))"
      by (rule sub [OF fit_data_subjects(4)])
    show "s \<notin> SEQN ` set (model5_data (fit_data ?dx))"
      by (rule sub [OF fit_data_subjects(5)])
    show "s \<notin> SEQN ` set (model6_data (fit_data ?dx))"
      by (rule sub [OF fit_data_subjects(6)])
    show "s \<notin> SEQN ` set (model7_data (fit_data ?dx))"
      by (rule sub [OF fit_data_subjects(7)])
    show "s \<notin> SEQN ` set (model8_data (fit_data ?dx))"
      by (rule sub [OF fit_data_subjects(8)])
    show "s \<notin> SEQN ` set (model9_data (fit_data ?dx))"
      by (rule sub [OF fit_data_subjects(9)])
    show "s \<notin> SEQN ` set (model10_data (fit_data ?dx))"
      by (rule sub [OF fit_data_subjects(10)])
    show "s \<notin> SEQN ` set (model11_data (fit_data ?dx))"
      by (rule sub [OF fit_data_subjects(11)])
  qed
qed

text \<open>
  Claim C3 as stated fails on the small survey: subject 1 has systolic rows and no
  diastolic row in the filtered long table, and the data of model 2 holds no row of
  subject 1.
\<close>

theorem no_diastolic_no_rows_counterexample:
  "(case reshape (sort_key SEQN) df_ex of
      Inl e \<Rightarrow> False
    | Inr lx \<Rightarrow>
        (\<exists>r\<in>set lx. SEQN r = 1 \<and> str_3_5 (bpvar r) = ''SY'')
        \<and> \<not> (\<exists>r\<in>set lx. SEQN r = 1 \<and> str_3_5 (bpvar r) = ''DI''))
   \<and> (case nhanes_bp (sort_key SEQN) df_ex of
        Inl e \<Rightarrow> False
      | Inr md \<Rightarrow> \<not> (\<exists>y\<in>set (model2_data md). SEQN y = 1))"
  by code_simp

text \<open>Subject 1 of the small survey.\<close>

theorem no_diastolic_no_rows_witness:
  "sorts_by_SEQN (sort_key SEQN)
   \<and> reshape (sort_key SEQN) df_ex = Inr lx_ex
   \<and> (\<exists>r\<in>set lx_ex. SEQN r = 1 \<and> str_3_5 (bpvar r) = ''SY'')
   \<and> \<not> (\<exists>r\<in>set lx_ex. SEQN r = 1 \<and> str_3_5 (bpvar r) = ''DI'')
   \<and> (\<exists>dx md. prepare (sort_key SEQN) df_ex = Inr dx \<and> nhanes_bp (sort_key SEQN) df_ex = Inr md
         \<and> 1 \<notin> SEQN ` set dx
         \<and> 1 \<notin> SEQN ` set (model2_data md) \<and> 1 \<notin> SEQN ` set (model3_data md))"
proof -
  have sy: "\<exists>r\<in>set lx_ex. SEQN r = 1 \<and> str_3_5 (bpvar r) = ''SY''"
    by (simp add: lx_ex_def str_3_5_def)
  have di: "\<forall>r\<in>set lx_ex. SEQN r = 1 \<longrightarrow> str_3_5 (bpvar r) \<noteq> ''DI''"
    by (simp add: lx_ex_def str_3_5_def)
  from no_diastolic_no_rows [OF sorts_by_SEQN_sort_key reshape_ex di]
  show ?thesis
    using sorts_by_SEQN_sort_key reshape_ex sy di by blast
qed

subsection \<open>The first 5000 rows\<close>

lemma trunc_mono:
  fixes a b :: real
  assumes "a \<le> b"
  shows "(if 0 \<le> a then \<lfloor>a\<rfloor> else \<lceil>a\<rceil>) \<le> (if 0 \<le> b then \<lfloor>b\<rfloor> else \<lceil>b\<rceil>)"
proof -
  consider "0 \<le> a" | "a < 0" "b < 0" | "a < 0" "0 \<le> b"
    by linarith
  then show ?thesis
  proof cases
    case 1
    then show ?thesis
      using assms by (simp add: floor_mono)
  next
    case 2
    then show ?thesis
      using assms by (simp add: ceiling_mono)
  next
    case 3
    have "\<lceil>a\<rceil> \<le> 0"
      using 3(1) by (simp add: ceiling_le_iff)
    moreover have "0 \<le> \<lfloor>b\<rfloor>"
      using 3(2) by simp
    ultimately have "\<lceil>a\<rceil> \<le> \<lfloor>b\<rfloor>"
      by linarith
    then show ?thesis
      using 3 by simp
  qed
qed

lemma trunc_less:
  fixes b :: real
  assumes "b < 2 ^ 63"
  shows "(if 0 \<le> b then \<lfloor>b\<rfloor> else \<lceil>b\<rceil>) < 2 ^ 63"
proof (cases "0 \<le> b")
  case True
  have "\<lfloor>b\<rfloor> < 2 ^ 63"
    using assms by (simp add: floor_less_iff)
  then show ?thesis
    using True by simp
next
  case False
  then have "\<lceil>b\<rceil> \<le> 0"
    by (simp add: ceiling_le_iff)
  then have "\<lceil>b\<rceil> < 2 ^ 63"
    by (rule le_less_trans) simp
  then show ?thesis
    using False by simp
qed

lemma astype_int_mono:
  assumes "a \<le> b" and "b < 2 ^ 63"
  shows "astype_int a \<le> astype_int b"
proof -
  define ta where "ta = (if 0 \<le> a then \<lfloor>a\<rfloor> else \<lceil>a\<rceil>)"
  define tb where "tb = (if 0 \<le> b then \<lfloor>b\<rfloor> else \<lceil>b\<rceil>)"
  define lo :: int where "lo = - (2 ^ 63)"
  have ab: "ta \<le> tb"
    unfolding ta_def tb_def by (rule trunc_mono [OF assms(1)])
  have b: "tb < 2 ^ 63"
    unfolding tb_def by (rule trunc_less [OF assms(2)])
  have a: "ta < 2 ^ 63"
    using ab b by linarith
  have ea: "astype_int a = of_int (if lo \<le> ta then ta else lo)"
    using a by (simp add: astype_int_def Let_def ta_def lo_def)
  have eb: "astype_int b = of_int (if lo \<le> tb then tb else lo)"
    using b by (simp add: astype_int_def Let_def tb_def lo_def)
  have "(if lo \<le> ta then ta else lo) \<le> (if lo \<le> tb then tb else lo)"
    using ab by auto
  then show ?thesis
    unfolding ea eb by (simp only: of_int_le_iff)
qed

lemma astype_int_of_nat: "i < 715 \<Longrightarrow> astype_int (real i) = real i"
  by (simp add: astype_int_def Let_def)

lemma sorted_map_mono_below:
  fixes g :: "real \<Rightarrow> real"
  assumes "sorted ks" and "\<forall>k\<in>set ks. k < B"
    and "\<And>a b. a \<le> b \<Longrightarrow> b < B \<Longrightarrow> g a \<le> g b"
  shows "sorted (map g ks)"
  using assms by (induction ks) auto

lemma map_SEQN_merge:
  "map SEQN (merge_di_mean d ser) = map SEQN (filter (\<lambda>r. map_of ser (SEQN r) \<noteq> None) d)"
  by (induction d)
    (auto simp: merge_di_mean_def List.map_filter_simps merged_fields split: option.splits)

lemma map_SEQN_derive: "derive lx = Inr d \<Longrightarrow> map SEQN d = map SEQN lx"
proof -
  assume "derive lx = Inr d"
  then have "map fst (map (\<lambda>y. (SEQN y, bpt y)) d)
      = map fst (map (\<lambda>r. (SEQN r, str_3_5 (bpvar r))) lx)"
    by (simp only: derive_maps)
  then show ?thesis
    by (simp add: comp_def)
qed

lemma map_SEQN_reshape:
  "map SEQN (dropna (SEQN_astype_int t))
     = map astype_int (map SEQN (filter complete_case t))"
proof -
  have c: "complete_case (x\<lparr>SEQN := a\<rparr>) = complete_case x" for x a
    by (simp add: complete_case_def)
  show ?thesis
    by (simp add: dropna_def SEQN_astype_int_def filter_map comp_def c)
qed

lemma melted_keys:
  assumes "x \<in> set (concat (melt_rows vvars df))"
  shows "\<exists>r\<in>set df. SEQN x = SEQN r"
proof -
  from assms obtain v f r where "x = melt_row v f r" and "r \<in> set df"
    unfolding set_melt_rows by blast
  then show ?thesis
    by (auto simp: melt_row_def idvars.defs long_row.defs)
qed

lemma prepare_sorted:
  assumes "sorts_by_SEQN srt" and "\<forall>r\<in>set df. SEQN r < 2 ^ 63" and "prepare srt df = Inr dx"
  shows "sorted (map SEQN dx)"
proof -
  from prepare_eq [OF assms(1), of df] obtain lx d where lx: "reshape srt df = Inr lx"
    and d: "derive lx = Inr d"
    and p: "prepare srt df = Inr (merge_di_mean d (di_mean_series d))"
    by blast
  let ?L = "concat (melt_rows vvars df)"
  have lxe: "lx = dropna (SEQN_astype_int (srt ?L))"
    using lx by (simp add: reshape_eq)
  have "sorted (map SEQN (srt ?L))"
    using assms(1) by (simp add: sorts_by_SEQN_def)
  then have s: "sorted (map SEQN (filter complete_case (srt ?L)))"
    by (rule sorted_filter)
  have below: "\<forall>k\<in>set (map SEQN (filter complete_case (srt ?L))). k < 2 ^ 63"
  proof
    fix k
    assume "k \<in> set (map SEQN (filter complete_case (srt ?L)))"
    then obtain x where "x \<in> set (srt ?L)" and k: "k = SEQN x"
      by auto
    then have "x \<in> set ?L"
      by (simp only: sorts_by_SEQN_set [OF assms(1)])
    then obtain r where "r \<in> set df" and "SEQN x = SEQN r"
      using melted_keys by blast
    then show "k < 2 ^ 63"
      using assms(2) k by simp
  qed
  have "sorted (map SEQN lx)"
    unfolding lxe map_SEQN_reshape
    by (rule sorted_map_mono_below [OF s below]) (rule astype_int_mono)
  then have "sorted (map SEQN d)"
    by (simp add: map_SEQN_derive [OF d])
  then have "sorted (map SEQN (merge_di_mean d (di_mean_series d)))"
    unfolding map_SEQN_merge by (rule sorted_filter)
  then show ?thesis
    using p assms(3) by simp
qed

lemma sorted_key_nth:
  fixes f :: "'a \<Rightarrow> real"
  assumes "sorted (map f xs)" and "j < length (filter (\<lambda>x. f x = s) xs)"
  shows "xs ! (length (filter (\<lambda>x. f x < s) xs) + j) = filter (\<lambda>x. f x = s) xs ! j"
  using assms
proof (induction xs arbitrary: j)
  case Nil
  then show ?case by simp
next
  case (Cons x xs)
  have sx: "sorted (map f xs)" and ge: "\<forall>y\<in>set xs. f x \<le> f y"
    using Cons.prems(1) by simp_all
  consider "f x < s" | "f x = s" | "s < f x"
    by linarith
  then show ?case
  proof cases
    case 1
    then have "j < length (filter (\<lambda>x. f x = s) xs)"
      using Cons.prems(2) by simp
    then have "xs ! (length (filter (\<lambda>x. f x < s) xs) + j) = filter (\<lambda>x. f x = s) xs ! j"
      using Cons.IH sx by blast
    then show ?thesis
      using 1 by simp
  next
    case 2
    have none: "filter (\<lambda>x. f x < s) xs = []"
      using ge 2 by (auto simp: filter_empty_conv)
    show ?thesis
    proof (cases j)
      case 0
      then show ?thesis
        using 2 none by simp
    next
      case (Suc i)
      then have "i < length (filter (\<lambda>x. f x = s) xs)"
        using Cons.prems(2) 2 by simp
      then have "xs ! (length (filter (\<lambda>x. f x < s) xs) + i) = filter (\<lambda>x. f x = s) xs ! i"
        using Cons.IH sx by blast
      then show ?thesis
        using 2 none Suc by simp
    qed
  next
    case 3
    have "filter (\<lambda>x. f x = s) xs = []"
      using ge 3 by (auto simp: filter_empty_conv)
    then show ?thesis
      using Cons.prems(2) 3 by simp
  qed
qed

lemma length_filter_perm:
  assumes "mset xs = mset ys"
  shows "length (filter Q xs) = length (filter Q ys)"
proof -
  have "mset (filter Q xs) = mset (filter Q ys)"
    using assms by simp
  then show ?thesis
    by (rule mset_eq_length)
qed

lemma length_filter_concat:
  "length (filter Q (concat bs)) = sum_list (map (\<lambda>b. length (filter Q b)) bs)"
  by (induction bs) simp_all

lemma length_filter_less_upt: "length (filter (\<lambda>i. i < k) [0..<n]) = min k n"
  by (induction n) auto

lemma filter_eq_upt: "filter (\<lambda>i. i = k) [0..<n] = (if k < n then [k] else [])"
  by (induction n) auto

lemma melt_rows_vvars:
  "melt_rows vvars df =
    [map (melt_row ''BPXSY1'' BPXSY1) df, map (melt_row ''BPXSY2'' BPXSY2) df,
     map (melt_row ''BPXSY3'' BPXSY3) df, map (melt_row ''BPXSY4'' BPXSY4) df,
     map (melt_row ''BPXDI1'' BPXDI1) df, map (melt_row ''BPXDI2'' BPXDI2) df,
     map (melt_row ''BPXDI3'' BPXDI3) df, map (melt_row ''BPXDI4'' BPXDI4) df]"
  by (simp add: melt_rows_def vvars_eq column_def)

lemma melt_row_survey:
  "complete_case (melt_row v f (survey_row b i)) \<longleftrightarrow> f (survey_row b i) \<noteq> None"
  "SEQN (melt_row v f (survey_row b i)) = real i"
  by (simp_all add: complete_case_def melt_row_def survey_row_def idvars.defs long_row.defs)

lemma block_count_present:
  assumes "\<And>i. f (survey_row b i) \<noteq> None"
  shows "length (filter (\<lambda>x. complete_case x \<and> P (astype_int (SEQN x)))
            (map (melt_row v f) (df_715 b)))
    = length (filter (\<lambda>i. P (real i)) [0..<715])"
proof -
  have "filter (\<lambda>i. P (astype_int (real i))) [0..<715] = filter (\<lambda>i. P (real i)) [0..<715]"
    by (rule filter_cong) (simp_all add: astype_int_of_nat del: upt_Suc)
  then show ?thesis
    by (simp add: df_715_def filter_map comp_def melt_row_survey assms del: upt_Suc)
qed

lemma block_count_missing:
  assumes "\<And>i. f (survey_row b i) = None"
  shows "length (filter (\<lambda>x. complete_case x \<and> P (astype_int (SEQN x)))
            (map (melt_row v f) (df_715 b)))
    = 0"
  by (simp add: df_715_def filter_map comp_def melt_row_survey assms del: upt_Suc)

lemma survey_count:
  "length (filter (\<lambda>x. complete_case x \<and> P (astype_int (SEQN x)))
      (concat (melt_rows vvars (df_715 b))))
    = 7 * length (filter (\<lambda>i. P (real i)) [0..<715])"
proof -
  have p: "BPXSY1 (survey_row b i) \<noteq> None" "BPXSY2 (survey_row b i) \<noteq> None"
    "BPXSY3 (survey_row b i) \<noteq> None" "BPXSY4 (survey_row b i) \<noteq> None"
    "BPXDI1 (survey_row b i) \<noteq> None" "BPXDI2 (survey_row b i) \<noteq> None"
    "BPXDI3 (survey_row b i) \<noteq> None" and m: "BPXDI4 (survey_row b i) = None" for i
    by (simp_all add: survey_row_def)
  note blocks = block_count_present [where f = BPXSY1, OF p(1)]
    block_count_present [where f = BPXSY2, OF p(2)]
    block_count_present [where f = BPXSY3, OF p(3)]
    block_count_present [where f = BPXSY4, OF p(4)]
    block_count_present [where f = BPXDI1, OF p(5)]
    block_count_present [where f = BPXDI2, OF p(6)]
    block_count_present [where f = BPXDI3, OF p(7)]
    block_count_missing [where f = BPXDI4, OF m]
  show ?thesis
    unfolding melt_rows_vvars length_filter_concat list.map sum_list.Cons sum_list.Nil blocks
    by simp
qed

lemma survey_below: "\<forall>r\<in>set (df_715 b). SEQN r < 2 ^ 63"
  by (auto simp: df_715_def survey_row_def)

lemma survey_joined:
  assumes "sorts_by_SEQN srt"
  shows "\<exists>lx d. lx = dropna (SEQN_astype_int (srt (concat (melt_rows vvars (df_715 b)))))
     \<and> derive lx = Inr d
     \<and> prepare srt (df_715 b) = Inr (merge_di_mean d (di_mean_series d))
     \<and> map SEQN (merge_di_mean d (di_mean_series d)) = map SEQN d
     \<and> (\<forall>P. length (filter (\<lambda>y. P (SEQN y)) (merge_di_mean d (di_mean_series d)))
            = 7 * length (filter (\<lambda>i. P (real i)) [0..<715]))"
proof -
  from prepare_eq [OF assms, of "df_715 b"] obtain lx d where lx: "reshape srt (df_715 b) = Inr lx"
    and d: "derive lx = Inr d"
    and p: "prepare srt (df_715 b) = Inr (merge_di_mean d (di_mean_series d))"
    by blast
  let ?L = "concat (melt_rows vvars (df_715 b))"
  let ?dx = "merge_di_mean d (di_mean_series d)"
  have lxe: "lx = dropna (SEQN_astype_int (srt ?L))"
    using lx by (simp add: reshape_eq)
  have pairs: "set (map (\<lambda>y. (SEQN y, bpt y)) d) = set (map (\<lambda>r. (SEQN r, str_3_5 (bpvar r))) lx)"
    by (simp only: derive_maps [OF d])
  have di: "map_of (di_mean_series d) (SEQN r) \<noteq> None" if r: "r \<in> set d" for r
  proof -
    have "(SEQN r, bpt r) \<in> set (map (\<lambda>y. (SEQN y, bpt y)) d)"
      using r by force
    then obtain x where x: "x \<in> set lx" and sx: "SEQN x = SEQN r"
      unfolding pairs by auto
    from x obtain v f w where xe: "x = (melt_row v f w)\<lparr>SEQN := astype_int (SEQN w)\<rparr>"
      and w: "w \<in> set (df_715 b)"
      unfolding lxe set_reshape [OF assms] by blast
    from w obtain i where i: "w = survey_row b i"
      by (auto simp: df_715_def)
    let ?q = "(melt_row ''BPXDI2'' BPXDI2 w)\<lparr>SEQN := astype_int (SEQN w)\<rparr>"
    have "complete_case (melt_row ''BPXDI2'' BPXDI2 w)"
      unfolding i melt_row_survey by (simp add: survey_row_def)
    moreover have "''BPXDI2'' \<in> set vvars" and "column ''BPXDI2'' = Some BPXDI2"
      by (simp_all add: vvars_eq column_def)
    ultimately have q: "?q \<in> set lx"
      unfolding lxe set_reshape [OF assms] using w by blast
    have "SEQN ?q = SEQN r" and "str_3_5 (bpvar ?q) = ''DI''"
      using sx xe by (simp_all add: melt_row_def idvars.defs long_row.defs str_3_5_def)
    then have "(SEQN r, ''DI'') \<in> set (map (\<lambda>r. (SEQN r, str_3_5 (bpvar r))) lx)"
      using q by force
    then have "(SEQN r, ''DI'') \<in> set (map (\<lambda>y. (SEQN y, bpt y)) d)"
      unfolding pairs .
    then have "\<exists>y\<in>set d. bpt y = ''DI'' \<and> SEQN y = SEQN r"
      by auto
    then show ?thesis
      by (simp add: map_of_di_mean_series)
  qed
  have kd: "map SEQN ?dx = map SEQN d"
  proof -
    have "filter (\<lambda>r. map_of (di_mean_series d) (SEQN r) \<noteq> None) d = d"
      using di by (simp add: filter_id_conv)
    then show ?thesis
      unfolding map_SEQN_merge by simp
  qed
  have ks: "map SEQN ?dx = map astype_int (map SEQN (filter complete_case (srt ?L)))"
    unfolding kd map_SEQN_derive [OF d] lxe map_SEQN_reshape ..
  have count: "length (filter (\<lambda>y. P (SEQN y)) ?dx)
      = 7 * length (filter (\<lambda>i. P (real i)) [0..<715])" for P
  proof -
    have "length (filter (\<lambda>y. P (SEQN y)) ?dx) = length (filter P (map SEQN ?dx))"
      by (simp add: comp_def)
    also have "\<dots> = length (filter (\<lambda>x. complete_case x \<and> P (astype_int (SEQN x))) (srt ?L))"
      unfolding ks by (simp add: filter_map comp_def conj_commute)
    also have "\<dots> = length (filter (\<lambda>x. complete_case x \<and> P (astype_int (SEQN x))) ?L)"
      using assms by (intro length_filter_perm) (simp add: sorts_by_SEQN_def)
    finally show ?thesis
      unfolding survey_count .
  qed
  show ?thesis
    using lxe d p kd count by blast
qed

lemma split_715:
  assumes "sorts_by_SEQN srt"
  shows "\<exists>dx. prepare srt (df_715 b) = Inr dx \<and> length dx = 5005
     \<and> 714 \<in> SEQN ` set (take 5000 dx) \<and> 714 \<in> SEQN ` set (drop 5000 dx)"
proof -
  from survey_joined [OF assms, of b] obtain d
    where p: "prepare srt (df_715 b) = Inr (merge_di_mean d (di_mean_series d))"
      and count: "\<And>P. length (filter (\<lambda>y. P (SEQN y)) (merge_di_mean d (di_mean_series d)))
            = 7 * length (filter (\<lambda>i. P (real i)) [0..<715])"
    by blast
  let ?dx = "merge_di_mean d (di_mean_series d)"
  have lt: "length (filter (\<lambda>y. SEQN y < 714) ?dx) = 4998"
    unfolding count [of "\<lambda>k. k < 714"] by (simp add: length_filter_less_upt del: upt_Suc)
  have eq: "length (filter (\<lambda>y. SEQN y = 714) ?dx) = 7"
    unfolding count [of "\<lambda>k. k = 714"] by (simp add: filter_eq_upt del: upt_Suc)
  have len: "length ?dx = 5005"
    using count [of "\<lambda>k. True"] by simp
  have sorted: "sorted (map SEQN ?dx)"
    by (rule prepare_sorted [OF assms survey_below p])
  have at: "SEQN (?dx ! (4998 + j)) = 714" if "j < 7" for j
  proof -
    have j: "j < length (filter (\<lambda>y. SEQN y = 714) ?dx)"
      using that eq by simp
    have "?dx ! (4998 + j) = filter (\<lambda>y. SEQN y = 714) ?dx ! j"
      using sorted_key_nth [OF sorted j] unfolding lt .
    moreover have "filter (\<lambda>y. SEQN y = 714) ?dx ! j \<in> set (filter (\<lambda>y. SEQN y = 714) ?dx)"
      using j by (rule nth_mem)
    ultimately show ?thesis
      by simp
  qed
  have "take 5000 ?dx ! 4999 \<in> set (take 5000 ?dx)"
    using len by (intro nth_mem) simp
  then have "SEQN (?dx ! 4999) \<in> SEQN ` set (take 5000 ?dx)"
    by simp
  then have inside: "714 \<in> SEQN ` set (take 5000 ?dx)"
    using at [of 1] by simp
  have "drop 5000 ?dx ! 0 \<in> set (drop 5000 ?dx)"
    using len by (intro nth_mem) simp
  then have "SEQN (?dx ! 5000) \<in> SEQN ` set (drop 5000 ?dx)"
    using len by simp
  then have outside: "714 \<in> SEQN ` set (drop 5000 ?dx)"
    using at [of 2] by simp
  show ?thesis
    using p len inside outside by blast
qed

lemma joined_di_mean:
  assumes "y \<in> set (merge_di_mean d (di_mean_series d))"
  shows "di_mean y = np_mean (di_readings d (SEQN y))"
proof -
  from assms obtain r m where y: "y = derived_row.extend r (merged_row.fields m)"
    and m: "map_of (di_mean_series d) (SEQN r) = Some m"
    unfolding set_merge_di_mean by blast
  have "m = np_mean (di_readings d (SEQN r))"
    using m by (simp add: map_of_di_mean_series split: if_splits)
  then show ?thesis
    using y by (simp add: merged_fields)
qed

lemma subject_melted:
  "filter (\<lambda>x. SEQN x = 714) (concat (melt_rows vvars (df_715 b))) =
    [melt_row ''BPXSY1'' BPXSY1 (survey_row b 714), melt_row ''BPXSY2'' BPXSY2 (survey_row b 714),
     melt_row ''BPXSY3'' BPXSY3 (survey_row b 714), melt_row ''BPXSY4'' BPXSY4 (survey_row b 714),
     melt_row ''BPXDI1'' BPXDI1 (survey_row b 714), melt_row ''BPXDI2'' BPXDI2 (survey_row b 714),
     melt_row ''BPXDI3'' BPXDI3 (survey_row b 714), melt_row ''BPXDI4'' BPXDI4 (survey_row b 714)]"
proof -
  have one: "filter (\<lambda>x. SEQN x = 714) (map (melt_row v f) (df_715 b)) = [melt_row v f (survey_row b 714)]"
    for v f
  proof -
    have "filter (\<lambda>x. SEQN x = 714) (map (melt_row v f) (df_715 b))
        = map (\<lambda>i. melt_row v f (survey_row b i)) (filter (\<lambda>i. i = 714) [0..<715])"
      by (simp add: df_715_def filter_map comp_def melt_row_survey del: upt_Suc)
    then show ?thesis
      unfolding filter_eq_upt by simp
  qed
  show ?thesis
    unfolding melt_rows_vvars by (simp add: one)
qed

lemma filter_SEQN_astype_int:
  assumes "\<forall>x\<in>set t. astype_int (SEQN x) = SEQN x"
  shows "filter (\<lambda>y. SEQN y = s) (SEQN_astype_int t) = SEQN_astype_int (filter (\<lambda>x. SEQN x = s) t)"
proof -
  have "filter (\<lambda>x. astype_int (SEQN x) = s) t = filter (\<lambda>x. SEQN x = s) t"
    by (rule filter_cong) (simp_all add: assms)
  then show ?thesis
    by (simp add: SEQN_astype_int_def filter_map comp_def)
qed

lemma filter_dropna: "filter P (dropna t) = dropna (filter P t)"
  by (simp add: dropna_def conj_commute)

lemma derive_filter:
  "derive lx = Inr d \<Longrightarrow>
     derive (filter (\<lambda>x. SEQN x = s) lx) = Inr (filter (\<lambda>y. SEQN y = s) d)"
proof (induction lx arbitrary: d)
  case Nil
  then show ?case by simp
next
  case (Cons r lx)
  then show ?case
    by (auto simp: then_do_def derive_row_fields split: sum.splits)
qed

lemma merge_filter:
  "filter (\<lambda>y. SEQN y = s) (merge_di_mean d ser)
     = merge_di_mean (filter (\<lambda>x. SEQN x = s) d) ser"
  by (induction d)
    (auto simp: merge_di_mean_def List.map_filter_simps merged_fields split: option.splits)

lemma di_readings_filter:
  "di_readings (filter (\<lambda>x. SEQN x = s) d) s = di_readings d s"
proof -
  have "filter (\<lambda>r. bpt r = ''DI'' \<and> SEQN r = s) (filter (\<lambda>x. SEQN x = s) d)
      = filter (\<lambda>r. bpt r = ''DI'' \<and> SEQN r = s) d"
    by (induction d) auto
  then show ?thesis
    by (simp add: di_readings_def)
qed

lemma derive_714:
  "derive (dropna (SEQN_astype_int
     [melt_row ''BPXSY1'' BPXSY1 (survey_row b 714), melt_row ''BPXSY2'' BPXSY2 (survey_row b 714),
      melt_row ''BPXSY3'' BPXSY3 (survey_row b 714), melt_row ''BPXSY4'' BPXSY4 (survey_row b 714),
      melt_row ''BPXDI1'' BPXDI1 (survey_row b 714), melt_row ''BPXDI2'' BPXDI2 (survey_row b 714),
      melt_row ''BPXDI3'' BPXDI3 (survey_row b 714), melt_row ''BPXDI4'' BPXDI4 (survey_row b 714)]))
   = Inr (d_714 b)"
proof -
  have a: "astype_int 714 = 714"
    using astype_int_of_nat [of 714] by simp
  show ?thesis
    by (simp add: dropna_def SEQN_astype_int_def complete_case_def melt_row_def survey_row_def
        idvars.defs long_row.defs derived_row.defs derive_row_def str_3_5_def
        str_5_astype_int_def d_714_def a)
qed

lemma merge_714:
  assumes "map_of ser 714 = Some m"
  shows "merge_di_mean (d_714 b) ser
     = map (\<lambda>r. derived_row.extend r (merged_row.fields m)) (d_714 b)"
  by (simp add: merge_di_mean_def List.map_filter_simps d_714_def assms)

lemma di_readings_714: "di_readings (d_714 b) 714 = [b, 80, 80]"
  by (simp add: di_readings_def d_714_def List.map_filter_simps)

lemma joined_714:
  "\<exists>dx. prepare (sort_key SEQN) (df_715 b) = Inr dx
     \<and> length dx = 5005
     \<and> length (filter (\<lambda>y. SEQN y < 714) dx) = 4998
     \<and> sorted (map SEQN dx)
     \<and> filter (\<lambda>y. SEQN y = 714) dx
         = map (\<lambda>r. derived_row.extend r (merged_row.fields (Some ((b + 160) / 3)))) (d_714 b)"
proof -
  note srt = sorts_by_SEQN_sort_key
  from survey_joined [OF srt, of b] obtain lx d
    where lxe: "lx = dropna (SEQN_astype_int (sort_key SEQN (concat (melt_rows vvars (df_715 b)))))"
      and d: "derive lx = Inr d"
      and p: "prepare (sort_key SEQN) (df_715 b) = Inr (merge_di_mean d (di_mean_series d))"
      and count: "\<And>P. length (filter (\<lambda>y. P (SEQN y)) (merge_di_mean d (di_mean_series d)))
            = 7 * length (filter (\<lambda>i. P (real i)) [0..<715])"
    by blast
  let ?L = "concat (melt_rows vvars (df_715 b))"
  let ?dx = "merge_di_mean d (di_mean_series d)"
  have lt: "length (filter (\<lambda>y. SEQN y < 714) ?dx) = 4998"
    unfolding count [of "\<lambda>k. k < 714"] by (simp add: length_filter_less_upt del: upt_Suc)
  have sorted: "sorted (map SEQN ?dx)"
    by (rule prepare_sorted [OF srt survey_below p])
  have ident: "\<forall>x\<in>set (sort_key SEQN ?L). astype_int (SEQN x) = SEQN x"
  proof
    fix x
    assume "x \<in> set (sort_key SEQN ?L)"
    then have "x \<in> set ?L"
      by simp
    then obtain r where "r \<in> set (df_715 b)" and "SEQN x = SEQN r"
      using melted_keys by blast
    then obtain i where "i < 715" and "SEQN x = real i"
      by (auto simp: df_715_def survey_row_def)
    then show "astype_int (SEQN x) = SEQN x"
      by (simp add: astype_int_of_nat)
  qed
  have "filter (\<lambda>x. SEQN x = 714) lx
      = dropna (SEQN_astype_int (filter (\<lambda>x. SEQN x = 714) (sort_key SEQN ?L)))"
    unfolding lxe filter_dropna filter_SEQN_astype_int [OF ident] ..
  also have "filter (\<lambda>x. SEQN x = 714) (sort_key SEQN ?L) = filter (\<lambda>x. SEQN x = 714) ?L"
    by (rule sort_key_stable)
  finally have "derive (filter (\<lambda>x. SEQN x = 714) lx) = Inr (d_714 b)"
    unfolding subject_melted by (simp only: derive_714)
  then have ds: "filter (\<lambda>y. SEQN y = 714) d = d_714 b"
    using derive_filter [OF d, of 714] by simp
  have "di_readings d 714 = [b, 80, 80]"
    using di_readings_filter [of 714 d] unfolding ds di_readings_714 by simp
  moreover have "\<exists>r\<in>set d. bpt r = ''DI'' \<and> SEQN r = 714"
    using calculation di_readings_key [of d 714] by simp
  ultimately have m: "map_of (di_mean_series d) 714 = Some (Some ((b + 160) / 3))"
    by (simp add: map_of_di_mean_series np_mean_def)
  have "filter (\<lambda>y. SEQN y = 714) ?dx
      = map (\<lambda>r. derived_row.extend r (merged_row.fields (Some ((b + 160) / 3)))) (d_714 b)"
    unfolding merge_filter ds by (rule merge_714 [OF m])
  moreover have "length ?dx = 5005"
    using count [of "\<lambda>k. True"] by simp
  ultimately show ?thesis
    using p lt sorted by blast
qed

lemma joined_714_rows:
  "\<exists>dx. prepare (sort_key SEQN) (df_715 b) = Inr dx
     \<and> length dx = 5005
     \<and> bpt (dx ! 4998) = ''SY'' \<and> SEQN (dx ! 4998) = 714
     \<and> di_mean (dx ! 4998) = Some ((b + 160) / 3)
     \<and> SEQN (dx ! 5002) = 714 \<and> bpvar (dx ! 5002) = ''BPXDI1'' \<and> bp (dx ! 5002) = Some b
     \<and> (\<forall>y\<in>set dx. SEQN y = 714 \<longrightarrow> di_mean y = Some ((b + 160) / 3))"
proof -
  from joined_714 [of b] obtain dx where p: "prepare (sort_key SEQN) (df_715 b) = Inr dx"
    and len: "length dx = 5005"
    and lt: "length (filter (\<lambda>y. SEQN y < 714) dx) = 4998"
    and sorted: "sorted (map SEQN dx)"
    and sub: "filter (\<lambda>y. SEQN y = 714) dx
         = map (\<lambda>r. derived_row.extend r (merged_row.fields (Some ((b + 160) / 3)))) (d_714 b)"
    by blast
  let ?sub = "map (\<lambda>r. derived_row.extend r (merged_row.fields (Some ((b + 160) / 3)))) (d_714 b)"
  have l7: "length (d_714 b) = 7"
    by (simp add: d_714_def)
  have at: "dx ! (4998 + j) = ?sub ! j" if "j < 7" for j
  proof -
    have "j < length (filter (\<lambda>y. SEQN y = 714) dx)"
      using that unfolding sub by (simp add: l7)
    from sorted_key_nth [OF sorted this] show ?thesis
      unfolding lt sub .
  qed
  have r0: "dx ! 4998 = ?sub ! 0" and r4: "dx ! 5002 = ?sub ! 4"
    using at [of 0] at [of 4] by simp_all
  have all: "di_mean y = Some ((b + 160) / 3)" if "y \<in> set dx" and "SEQN y = 714" for y
  proof -
    have "y \<in> set (filter (\<lambda>y. SEQN y = 714) dx)"
      using that by simp
    then show ?thesis
      unfolding sub by (auto simp: merged_fields)
  qed
  have f0: "bpt (dx ! 4998) = ''SY''" "SEQN (dx ! 4998) = 714"
    "di_mean (dx ! 4998) = Some ((b + 160) / 3)"
    unfolding r0 by (simp_all add: d_714_def derived_row.defs merged_row.defs)
  have f4: "SEQN (dx ! 5002) = 714" "bpvar (dx ! 5002) = ''BPXDI1''" "bp (dx ! 5002) = Some b"
    unfolding r4 by (simp_all add: d_714_def derived_row.defs merged_row.defs)
  show ?thesis
    using p len f0 f4 all by blast
qed

lemma df_715_one_reading:
  "df_715 200 = (df_715 80)[714 := (df_715 80 ! 714)\<lparr>BPXDI1 := Some 200\<rparr>]"
proof (rule nth_equalityI)
  show "length (df_715 200) = length ((df_715 80)[714 := (df_715 80 ! 714)\<lparr>BPXDI1 := Some 200\<rparr>])"
    by (simp add: df_715_def)
  fix i
  assume "i < length (df_715 200)"
  then have i: "i < 715"
    by (simp add: df_715_def)
  then show "df_715 200 ! i = (df_715 80)[714 := (df_715 80 ! 714)\<lparr>BPXDI1 := Some 200\<rparr>] ! i"
    by (simp add: df_715_def nth_list_update survey_row_def del: upt_Suc)
qed

text \<open>
  Claim C10, as amended. For every sort that orders the rows by subject id, and every
  survey whose subject ids are below \<open>2 ^ 63\<close>, the notebook succeeds, the joined table
  is ordered by subject id, and each of the eleven models is given a frame made of the
  first 5000 rows of that table: no row beyond position 5000 is in any frame. The column
  \<open>di_mean\<close> of those rows was computed before the cut: in every row of the joined
  table it is the mean of all the non-missing diastolic readings of the row's subject in
  the table before the join, the readings in rows beyond position 5000 included. The cut
  can fall inside a subject: in the survey of 715 subjects with seven rows each, subject
  714 has rows before and after position 5000.
\<close>

theorem models_use_first_5000:
  assumes "sorts_by_SEQN srt" and "\<forall>r\<in>set df. SEQN r < 2 ^ 63"
  shows "(\<exists>lx d dx md. reshape srt df = Inr lx \<and> derive lx = Inr d
       \<and> dx = merge_di_mean d (di_mean_series d)
       \<and> prepare srt df = Inr dx \<and> nhanes_bp srt df = Inr md
       \<and> sorted (map SEQN dx)
       \<and> model1_data md = take 5000 dx
       \<and> model2_data md = filter (\<lambda>r. bpt r = ''SY'') (take 5000 dx)
       \<and> model3_data md = filter (\<lambda>r. bpt r = ''SY'') (take 5000 dx)
       \<and> model4_data md = filter (\<lambda>r. bpt r = ''DI'') (take 5000 dx)
       \<and> model5_data md = filter (\<lambda>r. bpt r = ''DI'') (take 5000 dx)
       \<and> model6_data md = map add_bpi_cen (filter (\<lambda>r. bpt r = ''DI'') (take 5000 dx))
       \<and> model7_data md = take 5000 dx
       \<and> model8_data md = take 5000 dx
       \<and> model9_data md = map add_sy_di (take 5000 dx)
       \<and> model10_data md = map add_rep (map add_sy_di (take 5000 dx))
       \<and> model11_data md = map add_rep (map add_sy_di (take 5000 dx))
       \<and> (\<forall>y\<in>set dx. di_mean y = np_mean (di_readings d (SEQN y))))
     \<and> (\<exists>dx. prepare srt (df_715 80) = Inr dx \<and> length dx = 5005
           \<and> 714 \<in> SEQN ` set (take 5000 dx) \<and> 714 \<in> SEQN ` set (drop 5000 dx))"
proof (rule conjI)
  from prepare_eq [OF assms(1), of df] obtain lx d where lx: "reshape srt df = Inr lx"
    and d: "derive lx = Inr d"
    and p: "prepare srt df = Inr (merge_di_mean d (di_mean_series d))"
    by blast
  let ?dx = "merge_di_mean d (di_mean_series d)"
  show "\<exists>lx d dx md. reshape srt df = Inr lx \<and> derive lx = Inr d
       \<and> dx = merge_di_mean d (di_mean_series d)
       \<and> prepare srt df = Inr dx \<and> nhanes_bp srt df = Inr md
       \<and> sorted (map SEQN dx)
       \<and> model1_data md = take 5000 dx
       \<and> model2_data md = filter (\<lambda>r. bpt r = ''SY'') (take 5000 dx)
       \<and> model3_data md = filter (\<lambda>r. bpt r = ''SY'') (take 5000 dx)
       \<and> model4_data md = filter (\<lambda>r. bpt r = ''DI'') (take 5000 dx)
       \<and> model5_data md = filter (\<lambda>r. bpt r = ''DI'') (take 5000 dx)
       \<and> model6_data md = map add_bpi_cen (filter (\<lambda>r. bpt r = ''DI'') (take 5000 dx))
       \<and> model7_data md = take 5000 dx
       \<and> model8_data md = take 5000 dx
       \<and> model9_data md = map add_sy_di (take 5000 dx)
       \<and> model10_data md = map add_rep (map add_sy_di (take 5000 dx))
       \<and> model11_data md = map add_rep (map add_sy_di (take 5000 dx))
       \<and> (\<forall>y\<in>set dx. di_mean y = np_mean (di_readings d (SEQN y)))"
  proof (intro exI conjI ballI)
    show "reshape srt df = Inr lx"
      by (rule lx)
    show "derive lx = Inr d"
      by (rule d)
    show "?dx = merge_di_mean d (di_mean_series d)"
      by (rule refl)
    show "prepare srt df = Inr ?dx"
      by (rule p)
    show "nhanes_bp srt df = Inr (fit_data ?dx)"
      by (simp add: nhanes_bp_def p)
    show "sorted (map SEQN ?dx)"
      by (rule prepare_sorted [OF assms p])
    show "di_mean y = np_mean (di_readings d (SEQN y))" if "y \<in> set ?dx" for y
      by (rule joined_di_mean [OF that])
  qed (rule fit_data_fields)+
  show "\<exists>dx. prepare srt (df_715 80) = Inr dx \<and> length dx = 5005
           \<and> 714 \<in> SEQN ` set (take 5000 dx) \<and> 714 \<in> SEQN ` set (drop 5000 dx)"
    by (rule split_715 [OF assms(1)])
qed

text \<open>
  Claim C10 as stated fails: a row beyond position 5000 does influence a fit. Two surveys
  of 715 subjects differ in one reading, the first diastolic reading of subject 714 (80
  and 200). With ties kept in their order, the long row of that reading is at position
  5002 of the joined table in both runs, beyond the cut, and the systolic row at position
  4998 has \<open>di_mean\<close> 80 in one run and 120 in the other; it is in the frame of model
  3, which regresses on \<open>di_mean\<close>, in the first run and not in the second.
\<close>

theorem models_use_first_5000_counterexample:
  "\<exists>dx dx' md md'.
       df_715 200 = (df_715 80)[714 := (df_715 80 ! 714)\<lparr>BPXDI1 := Some 200\<rparr>]
     \<and> prepare (sort_key SEQN) (df_715 80) = Inr dx
     \<and> prepare (sort_key SEQN) (df_715 200) = Inr dx'
     \<and> nhanes_bp (sort_key SEQN) (df_715 80) = Inr md
     \<and> nhanes_bp (sort_key SEQN) (df_715 200) = Inr md'
     \<and> SEQN (dx ! 5002) = 714 \<and> bpvar (dx ! 5002) = ''BPXDI1'' \<and> bp (dx ! 5002) = Some 80
     \<and> SEQN (dx' ! 5002) = 714 \<and> bpvar (dx' ! 5002) = ''BPXDI1'' \<and> bp (dx' ! 5002) = Some 200
     \<and> bpt (dx ! 4998) = ''SY''
     \<and> di_mean (dx ! 4998) = Some 80 \<and> di_mean (dx' ! 4998) = Some 120
     \<and> dx ! 4998 \<in> set (model3_data md) \<and> dx ! 4998 \<notin> set (model3_data md')
     \<and> model3_data md \<noteq> model3_data md'"
proof -
  from joined_714_rows [of 80] obtain dx where p: "prepare (sort_key SEQN) (df_715 80) = Inr dx"
    and len: "length dx = 5005"
    and f0: "bpt (dx ! 4998) = ''SY''" "SEQN (dx ! 4998) = 714" "di_mean (dx ! 4998) = Some 80"
    and f4: "SEQN (dx ! 5002) = 714" "bpvar (dx ! 5002) = ''BPXDI1''" "bp (dx ! 5002) = Some 80"
    by auto
  from joined_714_rows [of 200] obtain dx' where p': "prepare (sort_key SEQN) (df_715 200) = Inr dx'"
    and g0: "di_mean (dx' ! 4998) = Some 120"
    and g4: "SEQN (dx' ! 5002) = 714" "bpvar (dx' ! 5002) = ''BPXDI1''" "bp (dx' ! 5002) = Some 200"
    and all: "\<forall>y\<in>set dx'. SEQN y = 714 \<longrightarrow> di_mean y = Some 120"
    by auto
  have n: "nhanes_bp (sort_key SEQN) (df_715 80) = Inr (fit_data dx)"
    and n': "nhanes_bp (sort_key SEQN) (df_715 200) = Inr (fit_data dx')"
    by (simp_all add: nhanes_bp_def p p')
  have "take 5000 dx ! 4998 \<in> set (take 5000 dx)"
    using len by (intro nth_mem) simp
  then have "dx ! 4998 \<in> set (take 5000 dx)"
    by simp
  then have inn: "dx ! 4998 \<in> set (model3_data (fit_data dx))"
    unfolding fit_data_fields using f0(1) by simp
  have out: "dx ! 4998 \<notin> set (model3_data (fit_data dx'))"
  proof
    assume "dx ! 4998 \<in> set (model3_data (fit_data dx'))"
    then have "dx ! 4998 \<in> set dx'"
      unfolding fit_data_fields by (auto dest: in_set_takeD)
    then have "di_mean (dx ! 4998) = Some 120"
      using all f0(2) by blast
    then show False
      using f0(3) by simp
  qed
  have ne: "model3_data (fit_data dx) \<noteq> model3_data (fit_data dx')"
    using inn out by metis
  show ?thesis
  proof (intro exI conjI)
    show "df_715 200 = (df_715 80)[714 := (df_715 80 ! 714)\<lparr>BPXDI1 := Some 200\<rparr>]"
      by (rule df_715_one_reading)
    show "prepare (sort_key SEQN) (df_715 80) = Inr dx"
      by (rule p)
    show "prepare (sort_key SEQN) (df_715 200) = Inr dx'"
      by (rule p')
    show "nhanes_bp (sort_key SEQN) (df_715 80) = Inr (fit_data dx)"
      by (rule n)
    show "nhanes_bp (sort_key SEQN) (df_715 200) = Inr (fit_data dx')"
      by (rule n')
    show "dx ! 4998 \<in> set (model3_data (fit_data dx))"
      by (rule inn)
    show "dx ! 4998 \<notin> set (model3_data (fit_data dx'))"
      by (rule out)
    show "model3_data (fit_data dx) \<noteq> model3_data (fit_data dx')"
      by (rule ne)
  qed (rule f0 f4 g0 g4)+
qed

text \<open>The survey of 715 subjects, sorted with ties in their order.\<close>

theorem models_use_first_5000_witness:
  "sorts_by_SEQN (sort_key SEQN)
   \<and> list_all (\<lambda>r. SEQN r < 2 ^ 63) (df_715 80)
   \<and> (\<exists>lx d dx md. reshape (sort_key SEQN) (df_715 80) = Inr lx \<and> derive lx = Inr d
       \<and> dx = merge_di_mean d (di_mean_series d)
       \<and> prepare (sort_key SEQN) (df_715 80) = Inr dx
       \<and> nhanes_bp (sort_key SEQN) (df_715 80) = Inr md
       \<and> sorted (map SEQN dx)
       \<and> model1_data md = take 5000 dx
       \<and> model2_data md = filter (\<lambda>r. bpt r = ''SY'') (take 5000 dx)
       \<and> model3_data md = filter (\<lambda>r. bpt r = ''SY'') (take 5000 dx)
       \<and> model4_data md = filter (\<lambda>r. bpt r = ''DI'') (take 5000 dx)
       \<and> model5_data md = filter (\<lambda>r. bpt r = ''DI'') (take 5000 dx)
       \<and> model6_data md = map add_bpi_cen (filter (\<lambda>r. bpt r = ''DI'') (take 5000 dx))
       \<and> model7_data md = take 5000 dx
       \<and> model8_data md = take 5000 dx
       \<and> model9_data md = map add_sy_di (take 5000 dx)
       \<and> model10_data md = map add_rep (map add_sy_di (take 5000 dx))
       \<and> model11_data md = map add_rep (map add_sy_di (take 5000 dx))
       \<and> (\<forall>y\<in>set dx. di_mean y = np_mean (di_readings d (SEQN y))))
   \<and> (\<exists>dx. prepare (sort_key SEQN) (df_715 80) = Inr dx \<and> length dx = 5005
         \<and> 714 \<in> SEQN ` set (take 5000 dx) \<and> 714 \<in> SEQN ` set (drop 5000 dx))"
proof -
  have below: "\<forall>r\<in>set (df_715 80). SEQN r < 2 ^ 63"
    by (rule survey_below)
  then have l: "list_all (\<lambda>r. SEQN r < 2 ^ 63) (df_715 80)"
    by (simp only: list_all_iff)
  note t = models_use_first_5000 [OF sorts_by_SEQN_sort_key below]
  show ?thesis
    by (rule conjI [OF sorts_by_SEQN_sort_key conjI [OF l t]])
qed

subsection \<open>The intraclass correlation\<close>

text \<open>
  Claim C8. For a fitted random-intercept model whose random-intercept variance and
  residual scale are non-negative with a positive sum, the intraclass correlation is the
  random-intercept variance over the sum of that variance and the residual scale, and it
  lies between 0 and 1.
\<close>

theorem icc_between_0_and_1:
  assumes "0 \<le> cov_re result" and "0 \<le> scale result" and "0 < cov_re result + scale result"
  shows "icc result = Some (cov_re result / (cov_re result + scale result))
     \<and> 0 \<le> cov_re result / (cov_re result + scale result)
     \<and> cov_re result / (cov_re result + scale result) \<le> 1"
  using assms by (simp add: icc_def)

text \<open>
  The variance and scale the notebook prints for model 2; the intraclass correlation is
  the \<open>0.927150\<close> it prints, to six places.
\<close>

theorem icc_between_0_and_1_witness:
  "0 \<le> cov_re \<lparr>cov_re = 206.352, scale = 16.2140\<rparr>
   \<and> 0 \<le> scale \<lparr>cov_re = 206.352, scale = 16.2140\<rparr>
   \<and> 0 < cov_re \<lparr>cov_re = 206.352, scale = 16.2140\<rparr> + scale \<lparr>cov_re = 206.352, scale = 16.2140\<rparr>
   \<and> icc \<lparr>cov_re = 206.352, scale = 16.2140\<rparr> = Some (206.352 / 222.566)
   \<and> 0.9271495 \<le> (206.352 / 222.566 :: real) \<and> (206.352 / 222.566 :: real) < 0.9271505"
  using icc_between_0_and_1 [of "\<lparr>cov_re = 206.352, scale = 16.2140\<rparr>"]
  by simp

end
